theory Spec2Isabelle
  imports Complex_Main "HOL-Library.AList"
begin

section \<open>JavaScript values\<close>

text \<open>
  The quiz runtime is TypeScript; answer values reach it as \<open>unknown\<close>. The values that a
  quiz definition or a rendered question can produce are the JSON-like ones below. Numbers
  are exact rationals: the arithmetic of the runtime (sums of score contributions,
  comparisons, one division) is modelled exactly, and \<open>NaN\<close> appears only as the missing
  result \<open>None\<close> of a conversion or of a division by zero.

  A string value is the list of its UTF-16 code units, which is what \<open>length\<close>, \<open>trim\<close> and
  \<open>includes\<close> work on. The identifiers and texts of a quiz definition (question ids,
  categories, letters, labels, messages) are only compared and concatenated; they are kept
  as HOL strings, and \<open>js_of\<close> gives the string value of one, a code unit per character.
\<close>

type_synonym jstring = "nat list"

definition js_of :: "string \<Rightarrow> jstring" where
  "js_of s = map of_char s"

datatype jsval =
    JUndefined
  | JNull
  | JBool bool
  | JNum rat
  | JStr jstring
  | JArr "jsval list"

text \<open>
  \<open>a === b\<close>. An array is an object and is compared by identity; the arrays compared by the
  runtime are a stored answer on one side and a value of the quiz definition on the other,
  which are different objects, so the comparison of two arrays is false.
\<close>

fun strict_eq :: "jsval \<Rightarrow> jsval \<Rightarrow> bool" where
  "strict_eq (JArr xs) b = False"
| "strict_eq a (JArr ys) = False"
| "strict_eq a b = (a = b)"

text \<open>The values that a condition \<open>if (v)\<close> or \<open>v || d\<close> treats as false.\<close>

fun falsy :: "jsval \<Rightarrow> bool" where
  "falsy JUndefined = True"
| "falsy JNull = True"
| "falsy (JBool b) = (\<not> b)"
| "falsy (JNum r) = (r = 0)"
| "falsy (JStr s) = (s = [])"
| "falsy (JArr xs) = False"

text \<open>An optional string field \<open>f?: string\<close> used as a condition: present and not empty.\<close>

fun truthy_str :: "string option \<Rightarrow> bool" where
  "truthy_str None = False"
| "truthy_str (Some s) = (s \<noteq> [])"

text \<open>An optional number field used as a condition: present and not zero.\<close>

fun truthy_num :: "rat option \<Rightarrow> bool" where
  "truthy_num None = False"
| "truthy_num (Some r) = (r \<noteq> 0)"

text \<open>
  The built-ins of the host whose results are not computed here are parameters of the
  model: the decimal rendering of a number, the two conversions of a string to a number
  (\<open>None\<close> is \<open>NaN\<close>) and the regular-expression engine (\<open>None\<close>: the constructor
  \<open>new RegExp(p)\<close> throws a \<open>SyntaxError\<close>; otherwise the function is \<open>test\<close>).
\<close>

record js_host =
  numToString :: "rat \<Rightarrow> string"
  strToNumber :: "jstring \<Rightarrow> rat option"
  parseFloat :: "jstring \<Rightarrow> rat option"
  regExp :: "string \<Rightarrow> (jstring \<Rightarrow> bool) option"

datatype js_error = SyntaxError

fun join_with :: "'a list \<Rightarrow> 'a list list \<Rightarrow> 'a list" where
  "join_with sep [] = []"
| "join_with sep [s] = s"
| "join_with sep (s # t # ss) = s @ sep @ join_with sep (t # ss)"

text \<open>\<open>String(v)\<close>; an array is joined with commas, \<open>null\<close> and \<open>undefined\<close> elements as empty.\<close>

fun js_String :: "js_host \<Rightarrow> jsval \<Rightarrow> jstring" where
  "js_String H JUndefined = js_of ''undefined''"
| "js_String H JNull = js_of ''null''"
| "js_String H (JBool b) = (if b then js_of ''true'' else js_of ''false'')"
| "js_String H (JNum r) = js_of (numToString H r)"
| "js_String H (JStr s) = s"
| "js_String H (JArr xs) =
     join_with (js_of '','') (map (\<lambda>x. if x = JUndefined \<or> x = JNull then [] else js_String H x) xs)"

text \<open>\<open>Number(v)\<close>, with \<open>None\<close> for \<open>NaN\<close>.\<close>

fun js_Number :: "js_host \<Rightarrow> jsval \<Rightarrow> rat option" where
  "js_Number H JUndefined = None"
| "js_Number H JNull = Some 0"
| "js_Number H (JBool b) = Some (if b then 1 else 0)"
| "js_Number H (JNum r) = Some r"
| "js_Number H (JStr s) = strToNumber H s"
| "js_Number H (JArr xs) = strToNumber H (js_String H (JArr xs))"

text \<open>A comparison of two numbers is false as soon as one of them is \<open>NaN\<close>.\<close>

fun num_gt :: "rat option \<Rightarrow> rat option \<Rightarrow> bool" where
  "num_gt (Some a) (Some b) = (a > b)"
| "num_gt a b = False"

fun num_lt :: "rat option \<Rightarrow> rat option \<Rightarrow> bool" where
  "num_lt (Some a) (Some b) = (a < b)"
| "num_lt a b = False"

fun num_ge :: "rat option \<Rightarrow> rat option \<Rightarrow> bool" where
  "num_ge (Some a) (Some b) = (a \<ge> b)"
| "num_ge a b = False"

fun num_le :: "rat option \<Rightarrow> rat option \<Rightarrow> bool" where
  "num_le (Some a) (Some b) = (a \<le> b)"
| "num_le a b = False"

text \<open>
  \<open>s.trim()\<close> removes the white space and the line terminators of ECMAScript from both
  ends: the code units U+0009 to U+000D, U+0020, U+00A0, U+1680, U+2000 to U+200A, U+2028,
  U+2029, U+202F, U+205F, U+3000 and U+FEFF.
\<close>

definition is_ws :: "nat \<Rightarrow> bool" where
  "is_ws u =
     (u \<in> set [0x09, 0x0A, 0x0B, 0x0C, 0x0D, 0x20, 0xA0, 0x1680, 0x2028, 0x2029, 0x202F,
                0x205F, 0x3000, 0xFEFF] \<or>
      (0x2000 \<le> u \<and> u \<le> 0x200A))"

definition trim :: "jstring \<Rightarrow> jstring" where
  "trim s = rev (dropWhile is_ws (rev (dropWhile is_ws s)))"

text \<open>\<open>s.includes(t)\<close>: \<open>t\<close> occurs in \<open>s\<close> as a contiguous run.\<close>

fun starts_with :: "'a list \<Rightarrow> 'a list \<Rightarrow> bool" where
  "starts_with s [] = True"
| "starts_with [] (c # t) = False"
| "starts_with (d # s) (c # t) = (d = c \<and> starts_with s t)"

fun str_includes :: "'a list \<Rightarrow> 'a list \<Rightarrow> bool" where
  "str_includes [] t = (t = [])"
| "str_includes (c # s) t = (starts_with (c # s) t \<or> str_includes s t)"

text \<open>\<open>Math.round\<close>: the nearest integer, a half rounded up.\<close>

definition math_round :: "rat \<Rightarrow> int" where
  "math_round r = \<lfloor>r + 1 / 2\<rfloor>"

text \<open>
  \<open>a / b\<close> on numbers. Division by zero does not raise in JavaScript; its result (\<open>NaN\<close> or
  an infinity) is not a rational and is \<open>None\<close> here.
\<close>

definition js_divide :: "rat \<Rightarrow> rat \<Rightarrow> rat option" where
  "js_divide a b = (if b = 0 then None else Some (a / b))"

text \<open>
  An object used as a dictionary is the list of its entries in the order in which
  \<open>Object.entries\<close> enumerates them: first the keys that are array indices (the canonical
  decimal numerals below \<open>2^32 - 1\<close>) in ascending numeric order, then the other keys in
  the order of their creation. \<open>obj_set\<close> is the assignment \<open>o[k] = v\<close>: a key that exists
  keeps its place, a new key takes the place that this order gives it.
\<close>

definition is_digit :: "char \<Rightarrow> bool" where
  "is_digit c = (48 \<le> (of_char c :: nat) \<and> (of_char c :: nat) \<le> 57)"

definition decimal :: "string \<Rightarrow> nat" where
  "decimal s = foldl (\<lambda>n c. 10 * n + ((of_char c :: nat) - 48)) 0 s"

definition index_key :: "string \<Rightarrow> nat option" where
  "index_key k =
     (if k \<noteq> [] \<and> list_all is_digit k \<and> (length k = 1 \<or> hd k \<noteq> CHR ''0'')
         \<and> decimal k < 2 ^ 32 - 1
      then Some (decimal k) else None)"

definition index_below :: "nat \<Rightarrow> string \<Rightarrow> bool" where
  "index_below n k = (case index_key k of None \<Rightarrow> False | Some m \<Rightarrow> m < n)"

definition obj_new :: "string \<Rightarrow> 'v \<Rightarrow> (string \<times> 'v) list \<Rightarrow> (string \<times> 'v) list" where
  "obj_new k v al =
     (case index_key k of
        None \<Rightarrow> al @ [(k, v)]
      | Some n \<Rightarrow> takeWhile (\<lambda>e. index_below n (fst e)) al @ [(k, v)]
                   @ dropWhile (\<lambda>e. index_below n (fst e)) al)"

definition obj_set :: "string \<Rightarrow> 'v \<Rightarrow> (string \<times> 'v) list \<Rightarrow> (string \<times> 'v) list" where
  "obj_set k v al = (if map_of al k = None then obj_new k v al else AList.update k v al)"

section \<open>The data model (types.ts)\<close>

record ScoreContribution =
  sc_category :: string
  sc_value :: rat
  sc_weight :: "rat option"

text \<open>\<open>value?: string | number\<close> of an option.\<close>

datatype scalar = SStr string | SNum rat

fun js_scalar :: "scalar option \<Rightarrow> jsval" where
  "js_scalar None = JUndefined"
| "js_scalar (Some (SStr s)) = JStr (js_of s)"
| "js_scalar (Some (SNum r)) = JNum r"

fun js_optstr :: "string option \<Rightarrow> jsval" where
  "js_optstr None = JUndefined"
| "js_optstr (Some s) = JStr (js_of s)"

record ChoiceOption =
  letter :: "string option"
  opt_text :: string
  opt_value :: "scalar option"
  opt_scores :: "ScoreContribution list option"
  mask :: "string option"
  war :: "string option"
  archetype :: "string option"

text \<open>\<open>value: string | number | string[] | number[]\<close> of a condition.\<close>

datatype cond_value =
    CStr string
  | CNum rat
  | CStrs "string list"
  | CNums "rat list"

fun js_cond :: "cond_value \<Rightarrow> jsval" where
  "js_cond (CStr s) = JStr (js_of s)"
| "js_cond (CNum r) = JNum r"
| "js_cond (CStrs ss) = JArr (map (\<lambda>s. JStr (js_of s)) ss)"
| "js_cond (CNums rs) = JArr (map JNum rs)"

datatype ConditionOperator =
  Equals | NotEquals | Contains | NotContains | GreaterThan | LessThan | InRange

record Condition =
  cond_questionId :: string
  cond_operator :: ConditionOperator
  cond_value :: cond_value

datatype LogicOperator = AND | OR

record ConditionalLogic =
  conditions :: "Condition list"
  logic_operator :: LogicOperator

text \<open>
  A question is the base fields and the fields of its variant; the constructor is the
  \<open>type\<close> tag. Only the fields that validation, scoring and navigation read are kept.
\<close>

datatype QuestionBody =
    SingleChoice "ChoiceOption list"
  | MultiChoice "ChoiceOption list" "rat option" "rat option"
  | Binary "rat option" "string option" "string option" "string option"
  | Likert rat "bool option" "string option"
  | Slider rat rat "string option"
  | Scenario "ChoiceOption list"
  | Matrix
  | Ranking
  | TextInput "rat option" "rat option" "string option"
  | ImageChoice

text \<open>
  The arguments are, in this order: \<open>options\<close>; \<open>options\<close>, \<open>minSelections\<close>,
  \<open>maxSelections\<close>; \<open>positiveValue\<close>, \<open>positiveLabel\<close>, \<open>negativeLabel\<close>,
  \<open>scoringCategory\<close>; \<open>scale.points\<close>, \<open>reverseCoded\<close>, \<open>scoringCategory\<close>; \<open>min\<close>,
  \<open>max\<close>, \<open>scoringCategory\<close>; \<open>options\<close>; \<open>minLength\<close>, \<open>maxLength\<close>,
  \<open>validationPattern\<close>.
\<close>

record Question =
  qid :: string
  label :: "string option"
  required :: "bool option"
  conditionalDisplay :: "ConditionalLogic option"
  body :: QuestionBody

record QuizAnswer =
  ans_questionId :: string
  ans_value :: jsval
  ans_timestamp :: nat

text \<open>
  \<open>answers\<close> is an object used as a dictionary; it is kept as the list of its entries in
  the order \<open>Object.entries\<close> enumerates them, read with \<open>map_of\<close> and written with
  \<open>obj_set\<close>. Dates are milliseconds.
\<close>

record QuizState =
  quizId :: string
  currentQuestionIndex :: nat
  answers :: "(string \<times> QuizAnswer) list"
  startedAt :: nat
  completedAt :: "nat option"
  metadata :: "(string \<times> string) list option"

datatype ValidationErrorCode =
    Required | MinLength | MaxLength | Pattern
  | MinSelections | MaxSelections | OutOfRange | InvalidFormat

record ValidationError =
  ve_questionId :: string
  ve_message :: string
  ve_code :: ValidationErrorCode

record ValidationResult =
  isValid :: bool
  errors :: "ValidationError list"

section \<open>Validation (validation.ts)\<close>

fun isEmpty :: "jsval \<Rightarrow> bool" where
  "isEmpty JUndefined = True"
| "isEmpty JNull = True"
| "isEmpty (JStr s) = (trim s = [])"
| "isEmpty (JArr xs) = (length xs = 0)"
| "isEmpty v = False"

definition plural :: "rat \<Rightarrow> string" where
  "plural n = (if n > 1 then ''s'' else [])"

definition validateMultiChoice ::
  "js_host \<Rightarrow> string \<Rightarrow> rat option \<Rightarrow> rat option \<Rightarrow> jsval \<Rightarrow> ValidationError list" where
  "validateMultiChoice H i minSel maxSel v =
     (let selections = (case v of JArr xs \<Rightarrow> xs | _ \<Rightarrow> []);
          e1 = (if truthy_num minSel \<and> rat_of_nat (length selections) < the minSel
                then [\<lparr>ve_questionId = i,
                       ve_message = ''Please select at least '' @ numToString H (the minSel)
                                    @ '' option'' @ plural (the minSel),
                       ve_code = MinSelections\<rparr>]
                else []);
          e2 = (if truthy_num maxSel \<and> rat_of_nat (length selections) > the maxSel
                then [\<lparr>ve_questionId = i,
                       ve_message = ''Please select no more than '' @ numToString H (the maxSel)
                                    @ '' option'' @ plural (the maxSel),
                       ve_code = MaxSelections\<rparr>]
                else [])
      in e1 @ e2)"

definition validateTextInput ::
  "js_host \<Rightarrow> string \<Rightarrow> rat option \<Rightarrow> rat option \<Rightarrow> string option \<Rightarrow> jsval \<Rightarrow>
     js_error + ValidationError list" where
  "validateTextInput H i minLen maxLen pat v =
     (let text = js_String H (if falsy v then JStr [] else v);
          e1 = (if truthy_num minLen \<and> rat_of_nat (length text) < the minLen
                then [\<lparr>ve_questionId = i,
                       ve_message = ''Please enter at least '' @ numToString H (the minLen)
                                    @ '' characters'',
                       ve_code = MinLength\<rparr>]
                else []);
          e2 = (if truthy_num maxLen \<and> rat_of_nat (length text) > the maxLen
                then [\<lparr>ve_questionId = i,
                       ve_message = ''Please enter no more than '' @ numToString H (the maxLen)
                                    @ '' characters'',
                       ve_code = MaxLength\<rparr>]
                else [])
      in if truthy_str pat
         then (case regExp H (the pat) of
                 None \<Rightarrow> Inl SyntaxError
               | Some test \<Rightarrow>
                   Inr (e1 @ e2 @
                        (if \<not> test text
                         then [\<lparr>ve_questionId = i, ve_message = ''Please enter a valid format'',
                                ve_code = Pattern\<rparr>]
                         else [])))
         else Inr (e1 @ e2))"

text \<open>\<open>typeof value === 'number' ? value : parseFloat(String(value))\<close>\<close>

definition to_num :: "js_host \<Rightarrow> jsval \<Rightarrow> rat option" where
  "to_num H v = (case v of JNum r \<Rightarrow> Some r | _ \<Rightarrow> parseFloat H (js_String H v))"

definition validateSlider ::
  "js_host \<Rightarrow> string \<Rightarrow> rat \<Rightarrow> rat \<Rightarrow> jsval \<Rightarrow> ValidationError list" where
  "validateSlider H i lo hi v =
     (case to_num H v of
        None \<Rightarrow> [\<lparr>ve_questionId = i, ve_message = ''Please select a value'',
                  ve_code = InvalidFormat\<rparr>]
      | Some num \<Rightarrow>
          (if num < lo \<or> num > hi
           then [\<lparr>ve_questionId = i,
                  ve_message = ''Please select a value between '' @ numToString H lo
                               @ '' and '' @ numToString H hi,
                  ve_code = OutOfRange\<rparr>]
           else []))"

definition validateLikert :: "js_host \<Rightarrow> string \<Rightarrow> jsval \<Rightarrow> ValidationError list" where
  "validateLikert H i v =
     (case to_num H v of
        None \<Rightarrow> [\<lparr>ve_questionId = i, ve_message = ''Please select a rating'',
                  ve_code = InvalidFormat\<rparr>]
      | Some num \<Rightarrow> [])"

text \<open>The \<open>switch\<close> of \<open>validateAnswer\<close> on the question type.\<close>

fun typeSpecific :: "js_host \<Rightarrow> string \<Rightarrow> QuestionBody \<Rightarrow> jsval \<Rightarrow> js_error + ValidationError list" where
  "typeSpecific H i (MultiChoice os minSel maxSel) v = Inr (validateMultiChoice H i minSel maxSel v)"
| "typeSpecific H i (TextInput minLen maxLen pat) v = validateTextInput H i minLen maxLen pat v"
| "typeSpecific H i (Slider lo hi cat) v = Inr (validateSlider H i lo hi v)"
| "typeSpecific H i (Likert pts rc cat) v = Inr (validateLikert H i v)"
| "typeSpecific H i b v = Inr []"

text \<open>
  \<open>validateAnswer\<close> returns its result, or propagates the \<open>SyntaxError\<close> of a malformed
  \<open>validationPattern\<close>.
\<close>

definition validateAnswer :: "js_host \<Rightarrow> Question \<Rightarrow> jsval \<Rightarrow> js_error + ValidationResult" where
  "validateAnswer H question v =
     (if required question \<noteq> Some False \<and> isEmpty v
      then Inr \<lparr>isValid = False,
                errors = [\<lparr>ve_questionId = qid question,
                           ve_message = ''This question requires an answer'',
                           ve_code = Required\<rparr>]\<rparr>
      else if isEmpty v
      then Inr \<lparr>isValid = True, errors = []\<rparr>
      else (case typeSpecific H (qid question) (body question) v of
              Inl e \<Rightarrow> Inl e
            | Inr errs \<Rightarrow> Inr \<lparr>isValid = (length errs = 0), errors = errs\<rparr>))"

section \<open>Conditional display (validation.ts)\<close>

text \<open>\<open>state.answers[id]?.value\<close>: \<open>undefined\<close> when the question has no stored answer.\<close>

definition answerValue :: "QuizState \<Rightarrow> string \<Rightarrow> jsval" where
  "answerValue st k = (case map_of (answers st) k of None \<Rightarrow> JUndefined | Some a \<Rightarrow> ans_value a)"

fun evaluateCondition :: "js_host \<Rightarrow> Condition \<Rightarrow> QuizState \<Rightarrow> bool" where
  "evaluateCondition H c st =
     (let av = answerValue st (cond_questionId c); cv = js_cond (cond_value c)
      in case cond_operator c of
           Equals \<Rightarrow> strict_eq av cv
         | NotEquals \<Rightarrow> \<not> strict_eq av cv
         | Contains \<Rightarrow>
             (case av of
                JArr xs \<Rightarrow> list_ex (\<lambda>x. strict_eq x cv) xs
              | _ \<Rightarrow> str_includes (js_String H av) (js_String H cv))
         | NotContains \<Rightarrow>
             (case av of
                JArr xs \<Rightarrow> \<not> list_ex (\<lambda>x. strict_eq x cv) xs
              | _ \<Rightarrow> \<not> str_includes (js_String H av) (js_String H cv))
         | GreaterThan \<Rightarrow> num_gt (js_Number H av) (js_Number H cv)
         | LessThan \<Rightarrow> num_lt (js_Number H av) (js_Number H cv)
         | InRange \<Rightarrow>
             (case cv of
                JArr [lo, hi] \<Rightarrow>
                  (let num = js_Number H av
                   in num_ge num (js_Number H lo) \<and> num_le num (js_Number H hi))
              | _ \<Rightarrow> False))"

definition evaluateConditions :: "js_host \<Rightarrow> ConditionalLogic \<Rightarrow> QuizState \<Rightarrow> bool" where
  "evaluateConditions H logic st =
     (let results = map (\<lambda>c. evaluateCondition H c st) (conditions logic)
      in if logic_operator logic = AND then list_all (\<lambda>b. b) results
         else list_ex (\<lambda>b. b) results)"

text \<open>
  The test \<open>!q.conditionalDisplay || evaluateConditions(q.conditionalDisplay, state)\<close> that
  the progress functions and the engine write in line.
\<close>

definition isVisible :: "js_host \<Rightarrow> QuizState \<Rightarrow> Question \<Rightarrow> bool" where
  "isVisible H st q =
     (case conditionalDisplay q of None \<Rightarrow> True | Some logic \<Rightarrow> evaluateConditions H logic st)"


text \<open>
  The result is a number; \<open>None\<close> is the \<open>NaN\<close> that rounding the quotient of a division
  by zero would give. The quotient and its product with 100 are exact here; the code forms
  them in double precision, which can land just below a half where the exact value is on
  it (23 of 40 is rounded to 57 by the code and to 58 here).
\<close>

definition calculateProgress :: "js_host \<Rightarrow> Question list \<Rightarrow> QuizState \<Rightarrow> int option" where
  "calculateProgress H qs st =
     (let visibleQuestions = filter (isVisible H st) qs
      in if length visibleQuestions = 0 then Some 100
         else (let answered = filter (\<lambda>q. \<not> isEmpty (answerValue st (qid q))) visibleQuestions
               in map_option (\<lambda>r. math_round (r * 100))
                    (js_divide (rat_of_nat (length answered))
                               (rat_of_nat (length visibleQuestions)))))"

section \<open>Scoring (types.ts, scoring.ts)\<close>

record ScoreThreshold =
  th_min :: rat
  th_max :: rat
  th_level :: string

record ScoringCategory =
  cat_id :: string
  maxScore :: "rat option"
  thresholds :: "ScoreThreshold list option"

record GroundZeroConfig =
  minCategories :: rat
  maxSpread :: rat
  minScore :: rat

datatype ScoringType = HighestWins | Threshold | WeightedAverage | Composite | Spectrum

record ScoringConfig =
  scoring_type :: ScoringType
  categories :: "ScoringCategory list"
  groundZeroThreshold :: "GroundZeroConfig option"

record Quiz =
  quiz_id :: string
  questions :: "Question list"
  scoring :: ScoringConfig

record ResultDimension =
  rd_category :: string
  rd_score :: rat
  rd_percentage :: "rat option"
  rd_level :: "string option"

record AnswerContribution =
  ac_questionId :: string
  ac_questionLabel :: string
  ac_answerText :: jstring
  ac_categories :: "ScoreContribution list"

text \<open>
  \<open>CategoryScores\<close> is an object used as a dictionary from category to score, kept as the
  list of its entries in enumeration order and written with \<open>obj_set\<close>.
\<close>

type_synonym CategoryScores = "(string \<times> rat) list"

record QuizResult =
  resultKey :: string
  primary :: ResultDimension
  secondary :: "ResultDimension option"
  scores :: CategoryScores
  contributions :: "AnswerContribution list"
  isGroundZero :: bool
  timestamp :: nat
  res_metadata :: "(string \<times> string) list option"

text \<open>\<open>scores[k] || 0\<close>: a missing key reads as 0.\<close>

definition score_or_zero :: "CategoryScores \<Rightarrow> string \<Rightarrow> rat" where
  "score_or_zero scs k = (case map_of scs k of None \<Rightarrow> 0 | Some v \<Rightarrow> v)"

text \<open>\<open>options.find(opt => opt.letter === v || opt.value === v)\<close>\<close>

definition findOption :: "ChoiceOption list \<Rightarrow> jsval \<Rightarrow> ChoiceOption option" where
  "findOption os v =
     find (\<lambda>opt. strict_eq (js_optstr (letter opt)) v \<or> strict_eq (js_scalar (opt_value opt)) v) os"

text \<open>\<open>quiz.questions.find(q => q.id === questionId)\<close>\<close>

definition findQuestion :: "Question list \<Rightarrow> string \<Rightarrow> Question option" where
  "findQuestion qs i = find (\<lambda>q. qid q = i) qs"

definition findCategory :: "ScoringConfig \<Rightarrow> string \<Rightarrow> ScoringCategory option" where
  "findCategory cfg k = find (\<lambda>c. cat_id c = k) (categories cfg)"

text \<open>A legacy tag \<open>war\<close>, \<open>mask\<close> or \<open>archetype\<close>: one point when the tag is set.\<close>

definition tagContribution :: "string option \<Rightarrow> ScoreContribution list" where
  "tagContribution tag =
     (if truthy_str tag then [\<lparr>sc_category = the tag, sc_value = 1, sc_weight = None\<rparr>] else [])"

definition explicitScores :: "ChoiceOption \<Rightarrow> ScoreContribution list" where
  "explicitScores opt = (case opt_scores opt of None \<Rightarrow> [] | Some scs \<Rightarrow> scs)"

text \<open>What the selected option of a single-choice or scenario question contributes.\<close>

definition optionContributions :: "ChoiceOption \<Rightarrow> ScoreContribution list" where
  "optionContributions opt =
     explicitScores opt @ tagContribution (war opt) @ tagContribution (mask opt)
       @ tagContribution (archetype opt)"

definition positiveOr1 :: "rat option \<Rightarrow> rat" where
  "positiveOr1 pv = (case pv of None \<Rightarrow> 1 | Some p \<Rightarrow> p)"

fun bodyContributions :: "QuestionBody \<Rightarrow> jsval \<Rightarrow> ScoreContribution list" where
  "bodyContributions (SingleChoice os) v =
     (case findOption os v of None \<Rightarrow> [] | Some opt \<Rightarrow> optionContributions opt)"
| "bodyContributions (Scenario os) v =
     (case findOption os v of None \<Rightarrow> [] | Some opt \<Rightarrow> optionContributions opt)"
| "bodyContributions (Binary pv pl nl cat) v =
     (let score = (if strict_eq v (JNum (positiveOr1 pv)) then 1 else 0 :: rat)
      in if truthy_str cat \<and> score > 0
         then [\<lparr>sc_category = the cat, sc_value = score, sc_weight = None\<rparr>] else [])"
| "bodyContributions (Likert pts rc cat) v =
     (let score = (case v of JNum r \<Rightarrow> r | _ \<Rightarrow> 0);
          score' = (if rc = Some True then pts - score + 1 else score)
      in if truthy_str cat
         then [\<lparr>sc_category = the cat, sc_value = score', sc_weight = None\<rparr>] else [])"
| "bodyContributions (MultiChoice os minSel maxSel) v =
     (let vals = (case v of JArr xs \<Rightarrow> xs | _ \<Rightarrow> [v])
      in concat (map (\<lambda>val. case findOption os val of None \<Rightarrow> []
                                | Some opt \<Rightarrow> explicitScores opt) vals))"
| "bodyContributions (Slider lo hi cat) v =
     (case v of
        JNum r \<Rightarrow> (if truthy_str cat
                   then [\<lparr>sc_category = the cat, sc_value = r, sc_weight = None\<rparr>] else [])
      | _ \<Rightarrow> [])"
| "bodyContributions b v = []"

definition getScoreContributionsFromAnswer :: "Question \<Rightarrow> jsval \<Rightarrow> ScoreContribution list" where
  "getScoreContributionsFromAnswer question v = bodyContributions (body question) v"

text \<open>\<open>contrib.weight ?? 1\<close>\<close>

definition weightOr1 :: "ScoreContribution \<Rightarrow> rat" where
  "weightOr1 contrib = (case sc_weight contrib of None \<Rightarrow> 1 | Some w \<Rightarrow> w)"

definition addContribution :: "CategoryScores \<Rightarrow> ScoreContribution \<Rightarrow> CategoryScores" where
  "addContribution scs contrib =
     obj_set (sc_category contrib)
       (score_or_zero scs (sc_category contrib) + sc_value contrib * weightOr1 contrib) scs"

definition initScores :: "ScoringConfig \<Rightarrow> CategoryScores" where
  "initScores cfg = foldl (\<lambda>scs cat. obj_set (cat_id cat) 0 scs) [] (categories cfg)"

definition calculateCategoryScores :: "Quiz \<Rightarrow> QuizState \<Rightarrow> CategoryScores" where
  "calculateCategoryScores quiz st =
     foldl (\<lambda>scs (questionId, answer).
              case findQuestion (questions quiz) questionId of
                None \<Rightarrow> scs
              | Some question \<Rightarrow>
                  foldl addContribution scs
                    (getScoreContributionsFromAnswer question (ans_value answer)))
       (initScores (scoring quiz)) (answers st)"

fun getAnswerText :: "js_host \<Rightarrow> QuestionBody \<Rightarrow> jsval \<Rightarrow> jstring" where
  "getAnswerText H (SingleChoice os) v =
     (case findOption os v of
        None \<Rightarrow> js_String H v
      | Some opt \<Rightarrow> (if opt_text opt \<noteq> [] then js_of (opt_text opt) else js_String H v))"
| "getAnswerText H (Scenario os) v =
     (case findOption os v of
        None \<Rightarrow> js_String H v
      | Some opt \<Rightarrow> (if opt_text opt \<noteq> [] then js_of (opt_text opt) else js_String H v))"
| "getAnswerText H (Binary pv pl nl cat) v =
     (if strict_eq v (JNum (positiveOr1 pv))
      then (if truthy_str pl then js_of (the pl) else js_of ''Yes'')
      else (if truthy_str nl then js_of (the nl) else js_of ''No''))"
| "getAnswerText H b v = js_String H v"

definition getAnswerContributions :: "js_host \<Rightarrow> Quiz \<Rightarrow> QuizState \<Rightarrow> AnswerContribution list" where
  "getAnswerContributions H quiz st =
     foldl (\<lambda>acc (questionId, answer).
              case findQuestion (questions quiz) questionId of
                None \<Rightarrow> acc
              | Some question \<Rightarrow>
                  (let scoreContribs = getScoreContributionsFromAnswer question (ans_value answer)
                   in if length scoreContribs = 0 then acc
                      else acc @
                        [\<lparr>ac_questionId = questionId,
                          ac_questionLabel =
                            (if truthy_str (label question) then the (label question)
                             else qid question),
                          ac_answerText = getAnswerText H (body question) (ans_value answer),
                          ac_categories = scoreContribs\<rparr>]))
       [] (answers st)"

text \<open>The body of \<open>sq.options.forEach\<close> in \<open>estimateMaxScore\<close>, on the running total.\<close>

definition estimateOption :: "string \<Rightarrow> rat \<Rightarrow> ChoiceOption \<Rightarrow> rat" where
  "estimateOption categoryId mx opt =
     (let m1 = (case opt_scores opt of
                  None \<Rightarrow> mx
                | Some scs \<Rightarrow>
                    foldl (\<lambda>m sc. if sc_category sc = categoryId
                                   then m + sc_value sc * weightOr1 sc else m) mx scs)
      in if war opt = Some categoryId \<or> mask opt = Some categoryId then m1 + 1 else m1)"

definition estimateQuestion :: "string \<Rightarrow> rat \<Rightarrow> Question \<Rightarrow> rat" where
  "estimateQuestion categoryId mx q =
     (case body q of
        SingleChoice os \<Rightarrow> foldl (estimateOption categoryId) mx os
      | Scenario os \<Rightarrow> foldl (estimateOption categoryId) mx os
      | _ \<Rightarrow> mx)"

definition estimateMaxScore :: "Quiz \<Rightarrow> string \<Rightarrow> rat" where
  "estimateMaxScore quiz categoryId =
     (let mx = foldl (estimateQuestion categoryId) 0 (questions quiz)
      in if mx = 0 then 10 else mx)"

definition getScoreLevel :: "ScoringConfig \<Rightarrow> string \<Rightarrow> rat \<Rightarrow> string" where
  "getScoreLevel cfg categoryId score =
     (case findCategory cfg categoryId of
        None \<Rightarrow> ''unknown''
      | Some category \<Rightarrow>
          (case thresholds category of
             None \<Rightarrow> ''unknown''
           | Some ths \<Rightarrow>
               (case find (\<lambda>t. score \<ge> th_min t \<and> score \<le> th_max t) ths of
                  None \<Rightarrow> ''unknown''
                | Some t \<Rightarrow> th_level t)))"

text \<open>\<open>category?.maxScore || this.estimateMaxScore(key)\<close>\<close>

definition maxScoreFor :: "Quiz \<Rightarrow> string \<Rightarrow> rat" where
  "maxScoreFor quiz key =
     (case findCategory (scoring quiz) key of
        None \<Rightarrow> estimateMaxScore quiz key
      | Some category \<Rightarrow>
          (if truthy_num (maxScore category) then the (maxScore category)
           else estimateMaxScore quiz key))"

text \<open>The result dimension built for the first and for the second entry of \<open>sorted\<close>.\<close>

definition dimension :: "Quiz \<Rightarrow> string \<times> rat \<Rightarrow> ResultDimension" where
  "dimension quiz e =
     (let key = fst e; score = snd e; mx = maxScoreFor quiz key
      in \<lparr>rd_category = key, rd_score = score,
          rd_percentage = Some (if mx > 0 then score / mx * 100 else 0),
          rd_level = Some (getScoreLevel (scoring quiz) key score)\<rparr>)"

text \<open>
  The entries with a positive score, in descending order of score; \<open>Array.prototype.sort\<close>
  is stable, as the insertion sort \<open>sort_key\<close> is.
\<close>

definition sortedScores :: "CategoryScores \<Rightarrow> (string \<times> rat) list" where
  "sortedScores scs = sort_key (\<lambda>e. - snd e) (filter (\<lambda>e. snd e > 0) scs)"

definition determinePrimaryResult ::
  "Quiz \<Rightarrow> CategoryScores \<Rightarrow> ResultDimension \<times> ResultDimension option" where
  "determinePrimaryResult quiz scs =
     (case sortedScores scs of
        [] \<Rightarrow> (\<lparr>rd_category = ''unknown'', rd_score = 0, rd_percentage = None,
                 rd_level = None\<rparr>, None)
      | [p] \<Rightarrow> (dimension quiz p, None)
      | p # s # rest \<Rightarrow> (dimension quiz p, Some (dimension quiz s)))"

definition warCategories :: "string list" where
  "warCategories = [''abandonment'', ''exposure'', ''entrapment'', ''erasure'']"

definition maskCategories :: "string list" where
  "maskCategories = [''flooded'', ''armored'', ''phantom'', ''analyzer'']"

text \<open>
  \<open>Math.max(...ws) - Math.min(...ws) <= d\<close>. On the empty list \<open>Math.max\<close> is \<open>-Infinity\<close> and
  \<open>Math.min\<close> is \<open>Infinity\<close>; their difference \<open>-Infinity\<close> is below every number.
\<close>

fun spreadWithin :: "rat list \<Rightarrow> rat \<Rightarrow> bool" where
  "spreadWithin [] d = True"
| "spreadWithin (w # ws) d = (foldl max w ws - foldl min w ws \<le> d)"

definition checkGroundZero :: "ScoringConfig \<Rightarrow> CategoryScores \<Rightarrow> bool" where
  "checkGroundZero cfg scs =
     (case groundZeroThreshold cfg of
        None \<Rightarrow> False
      | Some gzConfig \<Rightarrow>
          (let warScores = filter (\<lambda>score. score \<ge> minScore gzConfig)
                             (map (score_or_zero scs) warCategories)
           in if rat_of_nat (length warScores) < minCategories gzConfig then False
              else spreadWithin warScores (maxSpread gzConfig)))"

definition getTopFromList :: "CategoryScores \<Rightarrow> string list \<Rightarrow> string option" where
  "getTopFromList scs cats =
     fst (foldl (\<lambda>(top, topScore) cat.
                   (let score = score_or_zero scs cat
                    in if score > topScore then (Some cat, score) else (top, topScore)))
            (None, - 1) cats)"

text \<open>The last two returns of \<open>buildResultKey\<close>.\<close>

definition highestWinsKey :: "ResultDimension \<Rightarrow> ResultDimension option \<Rightarrow> string" where
  "highestWinsKey p s =
     (case s of Some sec \<Rightarrow> rd_category p @ ''-'' @ rd_category sec | None \<Rightarrow> rd_category p)"

definition buildResultKey ::
  "ScoringConfig \<Rightarrow> ResultDimension \<Rightarrow> ResultDimension option \<Rightarrow> CategoryScores \<Rightarrow> string" where
  "buildResultKey cfg p s scs =
     (if scoring_type cfg = Composite
      then (let topWar = getTopFromList scs warCategories;
                topMask = getTopFromList scs maskCategories
            in if truthy_str topWar \<and> truthy_str topMask
               then the topWar @ ''-'' @ the topMask
               else highestWinsKey p s)
      else highestWinsKey p s)"

text \<open>
  \<open>calculateResults\<close>, a method of the engine built from the quiz. No step of scoring
  raises on these data, so the result is a value for every input; \<open>now\<close> is the reading
  of the clock that \<open>new Date()\<close> takes.
\<close>

definition calculateResults :: "js_host \<Rightarrow> Quiz \<Rightarrow> QuizState \<Rightarrow> nat \<Rightarrow> QuizResult" where
  "calculateResults H quiz st now =
     (let scs = calculateCategoryScores quiz st;
          contribs = getAnswerContributions H quiz st;
          ps = determinePrimaryResult quiz scs;
          gz = checkGroundZero (scoring quiz) scs;
          key = (if gz then ''ground-zero''
                 else buildResultKey (scoring quiz) (fst ps) (snd ps) scs)
      in \<lparr>resultKey = key, primary = fst ps, secondary = snd ps, scores = scs,
          contributions = contribs, isGroundZero = gz, timestamp = now,
          res_metadata = metadata st\<rparr>)"

text \<open>The two preset configurations of scoring.ts.\<close>

definition plainCategory :: "string \<Rightarrow> ScoringCategory" where
  "plainCategory k = \<lparr>cat_id = k, maxScore = None, thresholds = None\<rparr>"

definition WAR_MASK_SCORING :: ScoringConfig where
  "WAR_MASK_SCORING =
     \<lparr>scoring_type = Composite,
      categories = map plainCategory
        [''abandonment'', ''exposure'', ''entrapment'', ''erasure'',
         ''flooded'', ''armored'', ''phantom'', ''analyzer''],
      groundZeroThreshold = Some \<lparr>minCategories = 3, maxSpread = 2, minScore = 3\<rparr>\<rparr>"

definition ARCHETYPE_SCORING :: ScoringConfig where
  "ARCHETYPE_SCORING =
     \<lparr>scoring_type = HighestWins,
      categories = map plainCategory
        [''fixer'', ''vanisher'', ''analyzer'', ''warrior'', ''chameleon'', ''performer''],
      groundZeroThreshold = None\<rparr>"

section \<open>Notions of the specification\<close>

text \<open>
  The specification's top-scoring category of a list, with strictly-greater comparison and
  ties broken by iteration order: the first category of the list whose score (a missing
  score read as 0) no other category of the list exceeds.
\<close>

definition isTop :: "CategoryScores \<Rightarrow> string list \<Rightarrow> string \<Rightarrow> bool" where
  "isTop scs cats c = list_all (\<lambda>d. score_or_zero scs d \<le> score_or_zero scs c) cats"

definition firstTop :: "CategoryScores \<Rightarrow> string list \<Rightarrow> string option" where
  "firstTop scs cats = find (isTop scs cats) cats"

text \<open>
  The specification's war scores that qualify for ground zero: those of the four war
  categories that are at or above \<open>minScore\<close>.
\<close>

definition qualifying :: "GroundZeroConfig \<Rightarrow> CategoryScores \<Rightarrow> rat list" where
  "qualifying gz scs = filter (\<lambda>s. minScore gz \<le> s) (map (score_or_zero scs) warCategories)"

text \<open>
  The specification's estimate of a maximal score: every contribution that any option of
  any question of the quiz could produce, as scoring credits them (the explicit scores and
  the legacy tags of an option of a single-choice or scenario question, the explicit scores
  of an option of a multi-choice question), and the sum of those toward one category.
\<close>

definition questionContributions :: "Question \<Rightarrow> ScoreContribution list" where
  "questionContributions q =
     (case body q of
        SingleChoice os \<Rightarrow> concat (map optionContributions os)
      | Scenario os \<Rightarrow> concat (map optionContributions os)
      | MultiChoice os minSel maxSel \<Rightarrow> concat (map explicitScores os)
      | _ \<Rightarrow> [])"

definition possibleContributions :: "Quiz \<Rightarrow> ScoreContribution list" where
  "possibleContributions quiz = concat (map questionContributions (questions quiz))"

definition contribTotal :: "string \<Rightarrow> ScoreContribution list \<Rightarrow> rat" where
  "contribTotal cat scs =
     sum_list (map (\<lambda>sc. sc_value sc * weightOr1 sc) (filter (\<lambda>sc. sc_category sc = cat) scs))"

definition possibleTotal :: "Quiz \<Rightarrow> string \<Rightarrow> rat" where
  "possibleTotal quiz cat = contribTotal cat (possibleContributions quiz)"

text \<open>The options of a single-choice or scenario question, and of a multi-choice question.\<close>

definition choiceOptions :: "Question \<Rightarrow> ChoiceOption list" where
  "choiceOptions q =
     (case body q of SingleChoice os \<Rightarrow> os | Scenario os \<Rightarrow> os | _ \<Rightarrow> [])"

definition multiOptions :: "Question \<Rightarrow> ChoiceOption list" where
  "multiOptions q = (case body q of MultiChoice os minSel maxSel \<Rightarrow> os | _ \<Rightarrow> [])"

text \<open>
  What scoring is to read of a state's answers: the answer value stored under each
  question id, in the order of enumeration.
\<close>

definition answerValues :: "QuizState \<Rightarrow> (string \<times> jsval) list" where
  "answerValues st = map (\<lambda>e. (fst e, ans_value (snd e))) (answers st)"

section \<open>The quiz engine (QuizEngine.ts)\<close>

datatype QuizEventType =
    QuizStarted | QuestionAnswered | QuestionSkipped | Navigation
  | QuizCompleted | ResultsViewed | QuizRestarted | EmailSubmitted

record QuizEvent =
  ev_type :: QuizEventType
  ev_quizId :: string
  ev_timestamp :: nat
  ev_data :: "(string \<times> jsval) list"

record QuizConfig =
  autoAdvance :: bool
  autoAdvanceDelay :: nat
  debugMode :: bool
  persistAnswers :: bool
  storageKey :: string

text \<open>What \<open>saveProgress\<close> serialises under the storage key.\<close>

record Snapshot =
  snap_state :: QuizState
  snap_questionOrder :: "nat list"
  savedAt :: nat

text \<open>
  The engine object and the parts of its environment that its methods change: the events
  it has delivered to the subscribed handlers (oldest first; the handlers belong to the
  rendering layer and are taken not to call back into the engine), the local storage,
  whether a write to the storage succeeds (a failing write throws and is caught by
  \<open>saveProgress\<close>), and the delays of the auto-advance timers it has scheduled. Logging to
  the console in debug mode changes none of these and is left out.
\<close>

record QuizEngine =
  eng_quiz :: Quiz
  eng_config :: QuizConfig
  eng_state :: QuizState
  questionOrder :: "nat list"
  emitted :: "QuizEvent list"
  localStorage :: "(string \<times> Snapshot) list"
  storageWritable :: bool
  timers :: "nat list"

text \<open>
  \<open>this.quiz.questions[this.questionOrder[index]] || null\<close>: an index outside
  \<open>questionOrder\<close> reads \<open>undefined\<close>, and so does \<open>questions\<close> at \<open>undefined\<close> or at an
  index outside the list.
\<close>

definition getQuestion :: "QuizEngine \<Rightarrow> nat \<Rightarrow> Question option" where
  "getQuestion e index =
     (if index < length (questionOrder e)
      then (let actualIndex = questionOrder e ! index
            in if actualIndex < length (questions (eng_quiz e))
               then Some (questions (eng_quiz e) ! actualIndex) else None)
      else None)"

definition getCurrentQuestion :: "QuizEngine \<Rightarrow> Question option" where
  "getCurrentQuestion e = getQuestion e (currentQuestionIndex (eng_state e))"

definition emit :: "QuizEngine \<Rightarrow> QuizEventType \<Rightarrow> (string \<times> jsval) list \<Rightarrow> nat \<Rightarrow> QuizEngine" where
  "emit e ty d now =
     e\<lparr>emitted := emitted e @
          [\<lparr>ev_type = ty, ev_quizId = quiz_id (eng_quiz e), ev_timestamp = now, ev_data = d\<rparr>]\<rparr>"

definition saveProgress :: "QuizEngine \<Rightarrow> nat \<Rightarrow> QuizEngine" where
  "saveProgress e now =
     (if storageWritable e
      then e\<lparr>localStorage :=
               AList.update (storageKey (eng_config e))
                 \<lparr>snap_state = eng_state e, snap_questionOrder = questionOrder e, savedAt = now\<rparr>
                 (localStorage e)\<rparr>
      else e)"

text \<open>
  \<open>submitAnswer\<close>: what the call does, returning a validation result (\<open>Inr\<close>) or throwing
  (\<open>Inl\<close>), and the engine after the call. \<open>submitAnswer\<close> catches nothing, so an
  exception of validation leaves through it, before anything is written. \<open>now\<close> is the
  reading of the clock during the call.
\<close>

definition submitAnswer ::
  "js_host \<Rightarrow> QuizEngine \<Rightarrow> jsval \<Rightarrow> nat \<Rightarrow> (js_error + ValidationResult) \<times> QuizEngine" where
  "submitAnswer H e v now =
     (case getCurrentQuestion e of
        None \<Rightarrow>
          (Inr \<lparr>isValid = False,
                errors = [\<lparr>ve_questionId = [], ve_message = ''No current question'',
                           ve_code = Required\<rparr>]\<rparr>, e)
      | Some question \<Rightarrow>
          (case validateAnswer H question v of
             Inl err \<Rightarrow> (Inl err, e)
           | Inr validation \<Rightarrow>
               (if \<not> isValid validation then (Inr validation, e)
                else (let e1 = e\<lparr>eng_state := (eng_state e)\<lparr>answers :=
                                  obj_set (qid question)
                                    \<lparr>ans_questionId = qid question, ans_value = v,
                                     ans_timestamp = now\<rparr>
                                    (answers (eng_state e))\<rparr>\<rparr>;
                          e2 = emit e1 QuestionAnswered
                                 [(''questionId'', JStr (js_of (qid question))), (''value'', v),
                                  (''questionIndex'',
                                   JNum (rat_of_nat (currentQuestionIndex (eng_state e1))))] now;
                          e3 = (if persistAnswers (eng_config e2) then saveProgress e2 now else e2);
                          e4 = (if autoAdvance (eng_config e3)
                                then e3\<lparr>timers := timers e3 @ [autoAdvanceDelay (eng_config e3)]\<rparr>
                                else e3)
                      in (Inr \<lparr>isValid = True, errors = []\<rparr>, e4)))))"

text \<open>The \<open>while\<close> loop of \<open>next\<close>: the first index from \<open>nextIndex\<close> on that holds a visible
  question, or the length of the question list.\<close>

function scanForward :: "js_host \<Rightarrow> QuizEngine \<Rightarrow> nat \<Rightarrow> nat" where
  "scanForward H e nextIndex =
     (if nextIndex < length (questions (eng_quiz e))
      then (case getQuestion e nextIndex of
              Some question \<Rightarrow>
                (if isVisible H (eng_state e) question then nextIndex
                 else scanForward H e (nextIndex + 1))
            | None \<Rightarrow> scanForward H e (nextIndex + 1))
      else nextIndex)"
  by pat_completeness auto
termination
  by (relation "measure (\<lambda>(H, e, i). length (questions (eng_quiz e)) - i)") auto

text \<open>
  The method \<open>next\<close>: its result and the engine after the call. (The list of visible
  questions that the method computes first is not used by it.)
\<close>

definition engine_next :: "js_host \<Rightarrow> QuizEngine \<Rightarrow> nat \<Rightarrow> bool \<times> QuizEngine" where
  "engine_next H e now =
     (case getCurrentQuestion e of
        None \<Rightarrow> (False, e)
      | Some currentQuestion \<Rightarrow>
          (let nextIndex = scanForward H e (currentQuestionIndex (eng_state e) + 1)
           in if nextIndex \<ge> length (questions (eng_quiz e)) then (False, e)
              else (let e1 = e\<lparr>eng_state := (eng_state e)\<lparr>currentQuestionIndex := nextIndex\<rparr>\<rparr>;
                        e2 = emit e1 Navigation
                               [(''direction'', JStr (js_of ''next'')),
                                (''index'', JNum (rat_of_nat nextIndex))] now;
                        e3 = (if persistAnswers (eng_config e2) then saveProgress e2 now else e2)
                    in (True, e3))))"

section \<open>Examples\<close>

text \<open>
  A host for the examples: it renders every number as \<open>?\<close>, reads no string as a number
  and rejects every pattern. The results of the examples do not depend on it; the only
  pattern they contain, \<open>[\<close>, is an unterminated character class, which \<open>new RegExp\<close>
  rejects as well.
\<close>

definition example_host :: js_host where
  "example_host =
     \<lparr>numToString = (\<lambda>r. ''?''), strToNumber = (\<lambda>s. None), parseFloat = (\<lambda>s. None),
      regExp = (\<lambda>p. None)\<rparr>"

definition empty_state :: QuizState where
  "empty_state =
     \<lparr>quizId = ''quiz'', currentQuestionIndex = 0, answers = [], startedAt = 0,
      completedAt = None, metadata = Some []\<rparr>"

text \<open>A required free-text question with a malformed pattern, and an optional one.\<close>

definition text_question :: Question where
  "text_question =
     \<lparr>qid = ''name'', label = None, required = None, conditionalDisplay = None,
      body = TextInput (Some 2) None (Some ''['')\<rparr>"

definition optional_question :: Question where
  "optional_question = text_question\<lparr>qid := ''nick'', required := Some False\<rparr>"

text \<open>The gate of the specification's example, and a question behind it.\<close>

definition q1_is_yes :: Condition where
  "q1_is_yes = \<lparr>cond_questionId = ''q1'', cond_operator = Equals, cond_value = CStr ''yes''\<rparr>"

definition gated_question :: Question where
  "gated_question =
     \<lparr>qid = ''q2'', label = None, required = Some True,
      conditionalDisplay = Some \<lparr>conditions = [q1_is_yes], logic_operator = AND\<rparr>,
      body = Matrix\<rparr>"

text \<open>An option with a letter and text only, and a question asking for one of some options.\<close>

definition plain_option :: "string \<Rightarrow> ChoiceOption" where
  "plain_option l =
     \<lparr>letter = Some l, opt_text = ''option '' @ l, opt_value = None, opt_scores = None,
      mask = None, war = None, archetype = None\<rparr>"

definition choice_question :: "string \<Rightarrow> QuestionBody \<Rightarrow> Question" where
  "choice_question i b =
     \<lparr>qid = i, label = None, required = None, conditionalDisplay = None, body = b\<rparr>"

definition answered :: "(string \<times> jsval) list \<Rightarrow> QuizState" where
  "answered as =
     empty_state\<lparr>answers :=
       map (\<lambda>(i, v). (i, \<lparr>ans_questionId = i, ans_value = v, ans_timestamp = 0\<rparr>)) as\<rparr>"

text \<open>A war and mask quiz without questions.\<close>

definition bare_war_quiz :: Quiz where
  "bare_war_quiz = \<lparr>quiz_id = ''war'', questions = [], scoring = WAR_MASK_SCORING\<rparr>"

text \<open>A war and mask quiz whose only option is tagged with a war and with no mask.\<close>

definition war_only_quiz :: Quiz where
  "war_only_quiz =
     \<lparr>quiz_id = ''war'',
      questions = [choice_question ''q1''
                     (SingleChoice [(plain_option ''A'')\<lparr>war := Some ''abandonment''\<rparr>])],
      scoring = WAR_MASK_SCORING\<rparr>"

text \<open>The war scores 4, 3, 3, 1 of the specification's example, from one scored option.\<close>

definition all_fronts_quiz :: Quiz where
  "all_fronts_quiz =
     \<lparr>quiz_id = ''war'',
      questions = [choice_question ''q1''
         (SingleChoice [(plain_option ''A'')\<lparr>opt_scores := Some
            [\<lparr>sc_category = ''abandonment'', sc_value = 4, sc_weight = None\<rparr>,
             \<lparr>sc_category = ''exposure'', sc_value = 3, sc_weight = None\<rparr>,
             \<lparr>sc_category = ''entrapment'', sc_value = 3, sc_weight = None\<rparr>,
             \<lparr>sc_category = ''erasure'', sc_value = 1, sc_weight = None\<rparr>]\<rparr>])],
      scoring = WAR_MASK_SCORING\<rparr>"

text \<open>An archetype quiz whose only question is multi-choice, with one scored option.\<close>

definition multi_quiz :: Quiz where
  "multi_quiz =
     \<lparr>quiz_id = ''types'',
      questions = [choice_question ''q1''
         (MultiChoice [(plain_option ''A'')\<lparr>opt_scores := Some
            [\<lparr>sc_category = ''fixer'', sc_value = 2, sc_weight = None\<rparr>]\<rparr>] None None)],
      scoring = ARCHETYPE_SCORING\<rparr>"

text \<open>An archetype quiz with a single-choice question of two scored options.\<close>

definition single_quiz :: Quiz where
  "single_quiz =
     \<lparr>quiz_id = ''types'',
      questions = [choice_question ''q1''
         (SingleChoice
            [(plain_option ''A'')\<lparr>opt_scores := Some
               [\<lparr>sc_category = ''fixer'', sc_value = 2, sc_weight = Some 3\<rparr>]\<rparr>,
             (plain_option ''B'')\<lparr>opt_scores := Some
               [\<lparr>sc_category = ''warrior'', sc_value = 1, sc_weight = None\<rparr>,
                \<lparr>sc_category = ''fixer'', sc_value = 1, sc_weight = None\<rparr>]\<rparr>])],
      scoring = ARCHETYPE_SCORING\<rparr>"

definition war_only_result :: QuizResult where
  "war_only_result =
     calculateResults example_host war_only_quiz (answered [(''q1'', JStr (js_of ''A''))]) 0"

text \<open>A war and mask quiz whose only option lowers every mask score.\<close>

definition negative_mask_quiz :: Quiz where
  "negative_mask_quiz =
     \<lparr>quiz_id = ''war'',
      questions = [choice_question ''q1''
         (SingleChoice [(plain_option ''A'')
            \<lparr>opt_scores := Some
               [\<lparr>sc_category = ''flooded'', sc_value = - 1, sc_weight = None\<rparr>,
                \<lparr>sc_category = ''armored'', sc_value = - 1, sc_weight = None\<rparr>,
                \<lparr>sc_category = ''phantom'', sc_value = - 1, sc_weight = None\<rparr>,
                \<lparr>sc_category = ''analyzer'', sc_value = - 2, sc_weight = None\<rparr>],
             war := Some ''abandonment''\<rparr>])],
      scoring = WAR_MASK_SCORING\<rparr>"

definition negative_mask_result :: QuizResult where
  "negative_mask_result =
     calculateResults example_host negative_mask_quiz (answered [(''q1'', JStr (js_of ''A''))]) 0"

definition all_fronts_result :: QuizResult where
  "all_fronts_result =
     calculateResults example_host all_fronts_quiz (answered [(''q1'', JStr (js_of ''A''))]) 0"

definition multi_result :: QuizResult where
  "multi_result =
     calculateResults example_host multi_quiz (answered [(''q1'', JArr [JStr (js_of ''A'')])]) 0"

text \<open>
  An engine on a quiz of three questions, the last two behind the gate, in the default
  configuration of the constructor.
\<close>

definition example_engine :: QuizEngine where
  "example_engine =
     \<lparr>eng_quiz = \<lparr>quiz_id = ''quiz'',
                  questions = [text_question, gated_question, gated_question\<lparr>qid := ''q3''\<rparr>],
                  scoring = ARCHETYPE_SCORING\<rparr>,
      eng_config = \<lparr>autoAdvance = False, autoAdvanceDelay = 300, debugMode = False,
                    persistAnswers = True, storageKey = ''unscarred_quiz_quiz''\<rparr>,
      eng_state = empty_state,
      questionOrder = [0, 1, 2],
      emitted = [],
      localStorage = [],
      storageWritable = True,
      timers = []\<rparr>"

text \<open>
  The state of a later attempt with the same answer: another cursor, other times.
\<close>

definition later_state :: QuizState where
  "later_state =
     \<lparr>quizId = ''quiz'', currentQuestionIndex = 1,
      answers = [(''q1'', \<lparr>ans_questionId = ''q1'', ans_value = JStr (js_of ''A''),
                           ans_timestamp = 1000\<rparr>)],
      startedAt = 900, completedAt = Some 2000, metadata = Some []\<rparr>"

section \<open>Properties of objects and of evaluation\<close>

lemma map_of_insert_fresh:
  "k \<notin> fst ` set xs \<Longrightarrow>
   map_of (xs @ (k, v) # ys) j = (if j = k then Some v else map_of (xs @ ys) j)"
  by (induction xs) auto

lemma obj_new_split:
  "\<exists>xs ys. al = xs @ ys \<and> obj_new k v al = xs @ (k, v) # ys"
proof (cases "index_key k")
  case None
  then have "al = al @ [] \<and> obj_new k v al = al @ (k, v) # []"
    by (simp add: obj_new_def)
  then show ?thesis by blast
next
  case (Some n)
  let ?P = "\<lambda>e. index_below n (fst e)"
  have "al = takeWhile ?P al @ dropWhile ?P al \<and>
        obj_new k v al = takeWhile ?P al @ (k, v) # dropWhile ?P al"
    using Some by (simp add: obj_new_def)
  then show ?thesis by blast
qed

lemma obj_set_map_of: "map_of (obj_set k v al) j = (if j = k then Some v else map_of al j)"
proof (cases "map_of al k")
  case None
  then have fresh: "k \<notin> fst ` set al"
    by (simp add: map_of_eq_None_iff)
  from obj_new_split [of al k v]
  obtain xs ys where s1: "al = xs @ ys" and s2: "obj_new k v al = xs @ (k, v) # ys"
    by (elim exE conjE)
  have "k \<notin> fst ` set xs"
    using fresh unfolding s1 by auto
  then have "map_of (xs @ (k, v) # ys) j = (if j = k then Some v else map_of (xs @ ys) j)"
    by (rule map_of_insert_fresh)
  then have "map_of (obj_new k v al) j = (if j = k then Some v else map_of al j)"
    unfolding s2 unfolding s1 .
  then show ?thesis
    using None by (simp only: obj_set_def simp_thms if_True)
next
  case (Some a)
  then show ?thesis
    by (simp add: obj_set_def update_conv')
qed

lemma update_values: "snd ` set (AList.update k v al) \<subseteq> insert v (snd ` set al)"
  by (induction al) auto

lemma obj_set_values: "snd ` set (obj_set k v al) \<subseteq> insert v (snd ` set al)"
proof (cases "map_of al k")
  case None
  from obj_new_split [of al k v]
  obtain xs ys where s1: "al = xs @ ys" and s2: "obj_new k v al = xs @ (k, v) # ys"
    by (elim exE conjE)
  have "snd ` set (xs @ (k, v) # ys) \<subseteq> insert v (snd ` set (xs @ ys))"
    by auto
  then have "snd ` set (obj_new k v al) \<subseteq> insert v (snd ` set al)"
    unfolding s2 unfolding s1 .
  then show ?thesis
    using None by (simp only: obj_set_def simp_thms if_True)
next
  case (Some a)
  then show ?thesis
    using update_values [of k v al] by (simp add: obj_set_def)
qed

text \<open>The definitions that the concrete examples unfold.\<close>

lemmas object_defs =
  obj_set_def obj_new_def index_below_def index_key_def is_digit_def decimal_def

lemmas scoring_defs =
  calculateResults_def calculateCategoryScores_def initScores_def getAnswerContributions_def
  getScoreContributionsFromAnswer_def findQuestion_def findOption_def findCategory_def
  optionContributions_def explicitScores_def tagContribution_def addContribution_def
  weightOr1_def score_or_zero_def determinePrimaryResult_def sortedScores_def dimension_def
  maxScoreFor_def estimateMaxScore_def estimateQuestion_def estimateOption_def
  getScoreLevel_def checkGroundZero_def buildResultKey_def getTopFromList_def
  highestWinsKey_def warCategories_def maskCategories_def js_of_def

lemmas example_defs =
  WAR_MASK_SCORING_def ARCHETYPE_SCORING_def plainCategory_def empty_state_def answered_def
  plain_option_def choice_question_def

section \<open>Properties of validation and conditional display\<close>

lemma trim_blank: "trim s = [] \<longleftrightarrow> list_all is_ws s"
proof -
  have "trim s = [] \<longleftrightarrow> (\<forall>x\<in>set (dropWhile is_ws s). is_ws x)"
    by (simp add: trim_def dropWhile_eq_Nil_conv)
  also have "\<dots> \<longleftrightarrow> dropWhile is_ws s = []"
    using hd_dropWhile [of is_ws s] by (cases "dropWhile is_ws s") (auto dest: set_dropWhileD)
  also have "\<dots> \<longleftrightarrow> list_all is_ws s"
    by (simp add: dropWhile_eq_Nil_conv list_all_iff)
  finally show ?thesis .
qed

lemma isEmpty_cases:
  "isEmpty v \<longleftrightarrow>
     v = JUndefined \<or> v = JNull \<or> (\<exists>s. v = JStr s \<and> trim s = []) \<or> v = JArr []"
  by (cases v) auto

text \<open>
  C7. The empty values are \<open>undefined\<close>, \<open>null\<close>, a string that is blank after trimming
  (every code unit of it is white space or a line terminator of ECMAScript, the ASCII ones
  as well as U+00A0 and the other Unicode spaces) and the empty array. On an empty value, a
  question whose \<open>required\<close> flag is not \<open>false\<close> gets the result \<open>isValid = false\<close> with
  exactly one error, of code \<open>required\<close>; a question whose flag is \<open>false\<close> gets
  \<open>isValid = true\<close> and no error. Both results are returned whatever the question's variant
  and the host are: no type-specific check is run (not even a malformed pattern is
  noticed).
\<close>

theorem validateAnswer_empty_value:
  "(isEmpty v \<longleftrightarrow>
      v = JUndefined \<or> v = JNull \<or> (\<exists>s. v = JStr s \<and> trim s = []) \<or> v = JArr []) \<and>
   (trim s = [] \<longleftrightarrow> list_all is_ws s) \<and>
   (isEmpty v \<and> required q \<noteq> Some False \<longrightarrow>
      validateAnswer H q v =
        Inr \<lparr>isValid = False,
             errors = [\<lparr>ve_questionId = qid q,
                        ve_message = ''This question requires an answer'',
                        ve_code = Required\<rparr>]\<rparr>) \<and>
   (isEmpty v \<and> required q = Some False \<longrightarrow>
      validateAnswer H q v = Inr \<lparr>isValid = True, errors = []\<rparr>)"
proof -
  have 1: "isEmpty v \<longleftrightarrow>
      v = JUndefined \<or> v = JNull \<or> (\<exists>s. v = JStr s \<and> trim s = []) \<or> v = JArr []"
    by (rule isEmpty_cases)
  have 2: "trim s = [] \<longleftrightarrow> list_all is_ws s"
    by (rule trim_blank)
  have 3: "isEmpty v \<and> required q \<noteq> Some False \<longrightarrow>
      validateAnswer H q v =
        Inr \<lparr>isValid = False,
             errors = [\<lparr>ve_questionId = qid q,
                        ve_message = ''This question requires an answer'',
                        ve_code = Required\<rparr>]\<rparr>"
    by (simp add: validateAnswer_def)
  have 4: "isEmpty v \<and> required q = Some False \<longrightarrow>
      validateAnswer H q v = Inr \<lparr>isValid = True, errors = []\<rparr>"
    by (simp add: validateAnswer_def)
  from 1 2 3 4 show ?thesis
    by (intro conjI)
qed

text \<open>
  The witness submits a string of a space, a no-break space and an ideographic space to a
  required question, and the empty array to an optional one.
\<close>

theorem validateAnswer_empty_value_witness:
  "trim [0x20, 0xA0, 0x3000] = [] \<and>
   isEmpty (JStr [0x20, 0xA0, 0x3000]) \<and> required text_question \<noteq> Some False \<and>
   validateAnswer example_host text_question (JStr [0x20, 0xA0, 0x3000]) =
     Inr \<lparr>isValid = False,
          errors = [\<lparr>ve_questionId = ''name'',
                     ve_message = ''This question requires an answer'',
                     ve_code = Required\<rparr>]\<rparr> \<and>
   isEmpty (JArr []) \<and> required optional_question = Some False \<and>
   validateAnswer example_host optional_question (JArr []) = Inr \<lparr>isValid = True, errors = []\<rparr>"
proof -
  note t = validateAnswer_empty_value
    [of "JStr [0x20, 0xA0, 0x3000]" "[0x20, 0xA0, 0x3000]" text_question example_host]
  have w: "list_all is_ws [0x20, 0xA0, 0x3000]"
    by (simp add: is_ws_def)
  with t have b: "trim [0x20, 0xA0, 0x3000] = []"
    by blast
  with t have e1: "isEmpty (JStr [0x20, 0xA0, 0x3000])"
    by blast
  have r1: "required text_question \<noteq> Some False"
    by (simp add: text_question_def)
  have e2: "isEmpty (JArr [])"
    by simp
  have r2: "required optional_question = Some False"
    by (simp add: optional_question_def)
  from t e1 r1
  have v1: "validateAnswer example_host text_question (JStr [0x20, 0xA0, 0x3000]) =
     Inr \<lparr>isValid = False,
          errors = [\<lparr>ve_questionId = qid text_question,
                     ve_message = ''This question requires an answer'',
                     ve_code = Required\<rparr>]\<rparr>"
    by blast
  from validateAnswer_empty_value [of "JArr []" "[]" optional_question example_host] e2 r2
  have v2: "validateAnswer example_host optional_question (JArr []) =
     Inr \<lparr>isValid = True, errors = []\<rparr>"
    by blast
  have i: "qid text_question = ''name''"
    by (simp add: text_question_def)
  show ?thesis
    using b e1 r1 e2 r2 v1 v2 by (simp only: i simp_thms)
qed






text \<open>
  C10. When conditional logic hides every question of the list, the progress is 100; and on
  every question list and state the progress is a number: the quotient is only formed with
  a positive count of visible questions.
\<close>

theorem calculateProgress_no_visible:
  "(list_all (\<lambda>q. \<not> isVisible H st q) qs \<longrightarrow> calculateProgress H qs st = Some 100) \<and>
   calculateProgress H qs st \<noteq> None"
proof
  show "list_all (\<lambda>q. \<not> isVisible H st q) qs \<longrightarrow> calculateProgress H qs st = Some 100"
  proof
    assume "list_all (\<lambda>q. \<not> isVisible H st q) qs"
    then have "filter (isVisible H st) qs = []"
      by (simp add: list_all_iff filter_empty_conv)
    then show "calculateProgress H qs st = Some 100"
      by (simp add: calculateProgress_def)
  qed
  show "calculateProgress H qs st \<noteq> None"
    by (simp add: calculateProgress_def Let_def js_divide_def)
qed

theorem calculateProgress_no_visible_witness:
  "list_all (\<lambda>q. \<not> isVisible example_host empty_state q) [gated_question, gated_question] \<and>
   calculateProgress example_host [gated_question, gated_question] empty_state = Some 100"
proof -
  have h: "\<not> isVisible example_host empty_state gated_question"
    by (simp add: isVisible_def gated_question_def q1_is_yes_def evaluateConditions_def
        answerValue_def empty_state_def)
  then have a: "list_all (\<lambda>q. \<not> isVisible example_host empty_state q)
                  [gated_question, gated_question]"
    by simp
  with calculateProgress_no_visible
    [of example_host empty_state "[gated_question, gated_question]"]
  show ?thesis by blast
qed

section \<open>Properties of scoring\<close>

subsection \<open>Reproducible results\<close>

lemma scores_of_values:
  "calculateCategoryScores quiz st =
     foldl (\<lambda>scs e.
              case findQuestion (questions quiz) (fst e) of
                None \<Rightarrow> scs
              | Some question \<Rightarrow>
                  foldl addContribution scs (getScoreContributionsFromAnswer question (snd e)))
       (initScores (scoring quiz)) (answerValues st)"
  unfolding calculateCategoryScores_def answerValues_def foldl_map
  by (rule arg_cong [where f = "\<lambda>f. foldl f (initScores (scoring quiz)) (answers st)"])
    (auto simp: fun_eq_iff split: option.splits)

lemma contributions_of_values:
  "getAnswerContributions H quiz st =
     foldl (\<lambda>acc e.
              case findQuestion (questions quiz) (fst e) of
                None \<Rightarrow> acc
              | Some question \<Rightarrow>
                  (let scoreContribs = getScoreContributionsFromAnswer question (snd e)
                   in if length scoreContribs = 0 then acc
                      else acc @
                        [\<lparr>ac_questionId = fst e,
                          ac_questionLabel =
                            (if truthy_str (label question) then the (label question)
                             else qid question),
                          ac_answerText = getAnswerText H (body question) (snd e),
                          ac_categories = scoreContribs\<rparr>]))
       [] (answerValues st)"
  unfolding getAnswerContributions_def answerValues_def foldl_map
  by (rule arg_cong [where f = "\<lambda>f. foldl f [] (answers st)"])
    (auto simp: fun_eq_iff Let_def split: option.splits)

text \<open>
  C1 (as amended). Two calls of \<open>calculateResults\<close> on the same configuration and questions
  give results that are equal in every field but the timestamp, which is the reading of
  the clock at each call. This holds for identical states, and already for two states that
  agree on the answer value stored under each question id, in the order of enumeration,
  and on the metadata: neither the cursor, nor the start and completion times, nor the
  times at which the answers were given reach the result.
\<close>

theorem calculateResults_reproducible:
  assumes "answerValues st = answerValues st'" and "metadata st = metadata st'"
  shows "calculateResults H quiz st t = (calculateResults H quiz st' t')\<lparr>timestamp := t\<rparr> \<and>
         timestamp (calculateResults H quiz st t) = t"
proof -
  have s: "calculateCategoryScores quiz st = calculateCategoryScores quiz st'"
    by (simp only: scores_of_values assms(1))
  have c: "getAnswerContributions H quiz st = getAnswerContributions H quiz st'"
    by (simp only: contributions_of_values assms(1))
  show ?thesis
    unfolding calculateResults_def Let_def s c assms(2) by simp
qed

theorem calculateResults_reproducible_witness:
  "answerValues later_state = answerValues (answered [(''q1'', JStr (js_of ''A''))]) \<and>
   metadata later_state = metadata (answered [(''q1'', JStr (js_of ''A''))]) \<and>
   later_state \<noteq> answered [(''q1'', JStr (js_of ''A''))] \<and>
   calculateResults example_host war_only_quiz later_state 5 = war_only_result\<lparr>timestamp := 5\<rparr>"
proof -
  have a: "answerValues later_state = answerValues (answered [(''q1'', JStr (js_of ''A''))])"
    by (simp add: answerValues_def later_state_def answered_def empty_state_def)
  have m: "metadata later_state = metadata (answered [(''q1'', JStr (js_of ''A''))])"
    by (simp add: later_state_def answered_def empty_state_def)
  have d: "later_state \<noteq> answered [(''q1'', JStr (js_of ''A''))]"
    by (simp add: later_state_def answered_def empty_state_def)
  from a m d calculateResults_reproducible [OF a m, of example_host war_only_quiz 5 0]
  show ?thesis
    by (simp add: war_only_result_def)
qed

text \<open>
  The claim as stated fails: the same inputs scored at two readings of the clock give two
  different results.
\<close>

theorem calculateResults_clock_counterexample:
  "calculateResults example_host bare_war_quiz empty_state 0 \<noteq>
   calculateResults example_host bare_war_quiz empty_state 1"
  by (simp add: calculateResults_def Let_def)

subsection \<open>Scoring a state without answers\<close>

lemma initFold_zero:
  "\<forall>e\<in>set acc. snd e = 0 \<Longrightarrow>
   \<forall>e\<in>set (foldl (\<lambda>scs cat. obj_set (cat_id cat) (0::rat) scs) acc cats). snd e = 0"
proof (induction cats arbitrary: acc)
  case Nil
  then show ?case by simp
next
  case (Cons c cs)
  have "\<forall>e\<in>set (obj_set (cat_id c) (0::rat) acc). snd e = 0"
    using Cons.prems obj_set_values [of "cat_id c" 0 acc] by auto
  then show ?case
    using Cons.IH by simp
qed

lemma initScores_zero: "\<forall>e\<in>set (initScores cfg). snd e = 0"
  unfolding initScores_def by (rule initFold_zero) simp

lemma initFold_map_of:
  "map_of (foldl (\<lambda>scs cat. obj_set (cat_id cat) (0::rat) scs) acc cats) k =
     (if k \<in> cat_id ` set cats then Some 0 else map_of acc k)"
  by (induction cats arbitrary: acc) (simp_all add: obj_set_map_of)

lemma initScores_map_of:
  "map_of (initScores cfg) k = (if k \<in> cat_id ` set (categories cfg) then Some 0 else None)"
  by (simp add: initScores_def initFold_map_of)

lemma initScores_score: "score_or_zero (initScores cfg) k = 0"
  by (simp add: score_or_zero_def initScores_map_of)

lemma sortedScores_init: "sortedScores (initScores cfg) = []"
  using initScores_zero [of cfg] by (simp add: sortedScores_def filter_empty_conv)

lemma getTop_zero:
  "(\<And>k. score_or_zero scs k = 0) \<Longrightarrow> getTopFromList scs (c # cs) = Some c"
proof -
  assume z: "\<And>k. score_or_zero scs k = 0"
  have "foldl (\<lambda>(top, topScore) cat.
                   (let score = score_or_zero scs cat
                    in if score > topScore then (Some cat, score) else (top, topScore)))
            (Some c, 0) cs = (Some c, 0)"
    by (induction cs) (simp_all add: z)
  then show ?thesis
    by (simp add: getTopFromList_def z)
qed

lemma checkGroundZero_init:
  "checkGroundZero cfg (initScores cfg) =
     (case groundZeroThreshold cfg of
        None \<Rightarrow> False
      | Some gz \<Rightarrow> (if minScore gz \<le> 0 then minCategories gz \<le> 4 \<and> 0 \<le> maxSpread gz
                    else minCategories gz \<le> 0))"
  by (auto simp: checkGroundZero_def initScores_score warCategories_def Let_def
      split: option.splits)

lemma empty_result:
  assumes "answers st = []"
  shows "scores (calculateResults H quiz st now) = initScores (scoring quiz)"
    and "contributions (calculateResults H quiz st now) = []"
    and "primary (calculateResults H quiz st now) =
          \<lparr>rd_category = ''unknown'', rd_score = 0, rd_percentage = None, rd_level = None\<rparr>"
    and "secondary (calculateResults H quiz st now) = None"
  using assms
  by (simp_all add: calculateResults_def calculateCategoryScores_def getAnswerContributions_def
      determinePrimaryResult_def sortedScores_init Let_def)

lemma empty_key:
  assumes "answers st = []"
  shows "resultKey (calculateResults H quiz st now) =
     (if checkGroundZero (scoring quiz) (initScores (scoring quiz)) then ''ground-zero''
      else if scoring_type (scoring quiz) = Composite then ''abandonment-flooded''
      else ''unknown'')"
  using assms
  by (simp add: calculateResults_def calculateCategoryScores_def
      determinePrimaryResult_def sortedScores_init Let_def buildResultKey_def
      getTop_zero initScores_score warCategories_def maskCategories_def highestWinsKey_def)

text \<open>
  C2 (as amended). Scoring a state whose answer map is empty returns a result (the scoring
  functions raise nowhere): every configured category has the score 0 and no other score
  exists, there are no contributions, the primary dimension is \<open>unknown\<close> with score 0 and
  there is no secondary one. The ground-zero flag is set exactly when a ground-zero
  configuration accepts four war scores of 0. The result key is \<open>ground-zero\<close> when the flag
  is set; otherwise it is \<open>abandonment-flooded\<close> for the composite scoring type (the first
  war and the first mask category) and \<open>unknown\<close> for every other scoring type.
\<close>

theorem calculateResults_no_answers:
  assumes "answers st = []"
  shows "(\<forall>c\<in>set (categories (scoring quiz)).
            map_of (scores (calculateResults H quiz st now)) (cat_id c) = Some 0) \<and>
         (\<forall>e\<in>set (scores (calculateResults H quiz st now)). snd e = 0) \<and>
         contributions (calculateResults H quiz st now) = [] \<and>
         primary (calculateResults H quiz st now) =
           \<lparr>rd_category = ''unknown'', rd_score = 0, rd_percentage = None, rd_level = None\<rparr> \<and>
         secondary (calculateResults H quiz st now) = None \<and>
         isGroundZero (calculateResults H quiz st now) =
           (case groundZeroThreshold (scoring quiz) of
              None \<Rightarrow> False
            | Some gz \<Rightarrow> (if minScore gz \<le> 0 then minCategories gz \<le> 4 \<and> 0 \<le> maxSpread gz
                          else minCategories gz \<le> 0)) \<and>
         resultKey (calculateResults H quiz st now) =
           (if isGroundZero (calculateResults H quiz st now) then ''ground-zero''
            else if scoring_type (scoring quiz) = Composite then ''abandonment-flooded''
            else ''unknown'')"
proof -
  let ?r = "calculateResults H quiz st now"
  have s: "scores ?r = initScores (scoring quiz)"
    using assms by (rule empty_result)
  have g: "isGroundZero ?r = checkGroundZero (scoring quiz) (initScores (scoring quiz))"
    using assms by (simp add: calculateResults_def calculateCategoryScores_def Let_def)
  have 1: "\<forall>c\<in>set (categories (scoring quiz)). map_of (scores ?r) (cat_id c) = Some 0"
    by (simp add: s initScores_map_of)
  have 2: "\<forall>e\<in>set (scores ?r). snd e = 0"
    unfolding s by (rule initScores_zero)
  have 3: "contributions ?r = []"
    using assms by (rule empty_result)
  have 4: "primary ?r =
      \<lparr>rd_category = ''unknown'', rd_score = 0, rd_percentage = None, rd_level = None\<rparr>"
    using assms by (rule empty_result)
  have 5: "secondary ?r = None"
    using assms by (rule empty_result)
  have 6: "isGroundZero ?r =
           (case groundZeroThreshold (scoring quiz) of
              None \<Rightarrow> False
            | Some gz \<Rightarrow> (if minScore gz \<le> 0 then minCategories gz \<le> 4 \<and> 0 \<le> maxSpread gz
                          else minCategories gz \<le> 0))"
    by (simp only: g checkGroundZero_init)
  have 7: "resultKey ?r =
           (if isGroundZero ?r then ''ground-zero''
            else if scoring_type (scoring quiz) = Composite then ''abandonment-flooded''
            else ''unknown'')"
    by (simp only: g empty_key [OF assms])
  from 1 2 3 4 5 6 7 show ?thesis
    by (intro conjI)
qed

theorem calculateResults_no_answers_witness:
  "answers empty_state = [] \<and>
   scores (calculateResults example_host
             \<lparr>quiz_id = ''types'', questions = [text_question], scoring = ARCHETYPE_SCORING\<rparr>
             empty_state 7) =
     [(''fixer'', 0), (''vanisher'', 0), (''analyzer'', 0), (''warrior'', 0),
      (''chameleon'', 0), (''performer'', 0)] \<and>
   resultKey (calculateResults example_host
             \<lparr>quiz_id = ''types'', questions = [text_question], scoring = ARCHETYPE_SCORING\<rparr>
             empty_state 7) = ''unknown''"
proof -
  let ?q = "\<lparr>quiz_id = ''types'', questions = [text_question], scoring = ARCHETYPE_SCORING\<rparr>"
  have a: "answers empty_state = []"
    by (simp add: empty_state_def)
  have g: "groundZeroThreshold (scoring ?q) = None" "scoring_type (scoring ?q) \<noteq> Composite"
    by (simp_all add: ARCHETYPE_SCORING_def)
  have k: "resultKey (calculateResults example_host ?q empty_state 7) = ''unknown''"
    using calculateResults_no_answers [OF a, of ?q example_host 7] g by simp
  have s: "scores (calculateResults example_host ?q empty_state 7) =
     [(''fixer'', 0), (''vanisher'', 0), (''analyzer'', 0), (''warrior'', 0),
      (''chameleon'', 0), (''performer'', 0)]"
    by (simp add: calculateResults_def calculateCategoryScores_def initScores_def a
        ARCHETYPE_SCORING_def plainCategory_def Let_def object_defs)
  from a s k show ?thesis by simp
qed

text \<open>
  The claim as stated fails on the war and mask preset: without any answer the key is
  \<open>abandonment-flooded\<close>.
\<close>

theorem calculateResults_no_answers_counterexample:
  "answers empty_state = [] \<and>
   resultKey (calculateResults example_host bare_war_quiz empty_state 0) \<noteq> ''unknown'' \<and>
   resultKey (calculateResults example_host bare_war_quiz empty_state 0) = ''abandonment-flooded''"
  by (simp add: calculateResults_def bare_war_quiz_def empty_state_def WAR_MASK_SCORING_def
      calculateCategoryScores_def initScores_def plainCategory_def checkGroundZero_def
      warCategories_def maskCategories_def score_or_zero_def buildResultKey_def getTopFromList_def
      determinePrimaryResult_def sortedScores_def Let_def object_defs)

subsection \<open>The composite result key\<close>

lemma top_fold:
  "fst (foldl (\<lambda>(top, topScore) cat.
                   (let score = score_or_zero scs cat
                    in if score > topScore then (Some cat, score) else (top, topScore)))
          (tp, ts) cats) =
     (if \<exists>c\<in>set cats. ts < score_or_zero scs c
      then find (\<lambda>c. ts < score_or_zero scs c \<and>
                      (\<forall>d\<in>set cats. score_or_zero scs d \<le> score_or_zero scs c)) cats
      else tp)"
proof (induction cats arbitrary: tp ts)
  case Nil
  then show ?case by simp
next
  case (Cons c cs)
  let ?sc = "score_or_zero scs"
  show ?case
  proof (cases "ts < ?sc c")
    case True
    note gt = True
    show ?thesis
    proof (cases "\<exists>d\<in>set cs. ?sc c < ?sc d")
      case True
      have "find (\<lambda>x. ?sc c < ?sc x \<and> (\<forall>d\<in>set cs. ?sc d \<le> ?sc x)) cs =
            find (\<lambda>x. ts < ?sc x \<and> (\<forall>d\<in>set (c # cs). ?sc d \<le> ?sc x)) cs"
        using True gt by (intro find_cong refl) fastforce
      then show ?thesis
        using True gt Cons.IH [of "Some c" "?sc c"] by (auto simp: Let_def)
    next
      case False
      then show ?thesis
        using gt Cons.IH [of "Some c" "?sc c"] by (auto simp: Let_def not_less)
    qed
  next
    case False
    have "find (\<lambda>x. ts < ?sc x \<and> (\<forall>d\<in>set cs. ?sc d \<le> ?sc x)) cs =
          find (\<lambda>x. ts < ?sc x \<and> (\<forall>d\<in>set (c # cs). ?sc d \<le> ?sc x)) cs"
      using False by (intro find_cong refl) fastforce
    then show ?thesis
      using False Cons.IH [of tp ts] by (auto simp: Let_def)
  qed
qed

lemma getTopFromList_firstTop:
  "getTopFromList scs cats =
     (if \<exists>c\<in>set cats. - 1 < score_or_zero scs c then firstTop scs cats else None)"
proof -
  let ?sc = "score_or_zero scs"
  have "find (\<lambda>c. - 1 < ?sc c \<and> (\<forall>d\<in>set cats. ?sc d \<le> ?sc c)) cats =
        find (isTop scs cats) cats" if "\<exists>c\<in>set cats. - 1 < ?sc c"
    using that by (intro find_cong refl) (fastforce simp: isTop_def list_all_iff)
  then show ?thesis
    by (simp add: getTopFromList_def top_fold firstTop_def)
qed

lemma firstTop_Some:
  "cats \<noteq> [] \<Longrightarrow> \<exists>c. firstTop scs cats = Some c \<and> c \<in> set cats \<and> isTop scs cats c"
proof -
  assume ne: "cats \<noteq> []"
  let ?sc = "score_or_zero scs"
  have "\<exists>c\<in>set cats. \<forall>d\<in>set cats. ?sc d \<le> ?sc c"
  proof -
    have f: "finite (?sc ` set cats)" "?sc ` set cats \<noteq> {}" using ne by auto
    then have "Max (?sc ` set cats) \<in> ?sc ` set cats" by (rule Max_in)
    then obtain c where c: "c \<in> set cats" "?sc c = Max (?sc ` set cats)" by auto
    then have "\<forall>d\<in>set cats. ?sc d \<le> ?sc c" using f by simp
    with c show ?thesis by blast
  qed
  then have "\<exists>c\<in>set cats. isTop scs cats c"
    by (simp add: isTop_def list_all_iff)
  then obtain c where "find (isTop scs cats) cats = Some c"
    by (cases "find (isTop scs cats) cats") (auto simp: find_None_iff)
  then show ?thesis
    unfolding firstTop_def by (auto dest: find_Some_iff [THEN iffD1] simp: nth_mem)
qed

lemma war_only_eval:
  "war_only_result =
     \<lparr>resultKey = ''abandonment-flooded'',
      primary = \<lparr>rd_category = ''abandonment'', rd_score = 1, rd_percentage = Some 100,
                 rd_level = Some ''unknown''\<rparr>,
      secondary = None,
      scores = [(''abandonment'', 1), (''exposure'', 0), (''entrapment'', 0), (''erasure'', 0),
                (''flooded'', 0), (''armored'', 0), (''phantom'', 0), (''analyzer'', 0)],
      contributions =
        [\<lparr>ac_questionId = ''q1'', ac_questionLabel = ''q1'', ac_answerText = js_of ''option A'',
          ac_categories = [\<lparr>sc_category = ''abandonment'', sc_value = 1, sc_weight = None\<rparr>]\<rparr>],
      isGroundZero = False, timestamp = 0, res_metadata = Some []\<rparr>"
  by (simp add: war_only_result_def war_only_quiz_def scoring_defs example_defs object_defs
      Let_def)

lemma negative_mask_eval:
  "negative_mask_result =
     \<lparr>resultKey = ''abandonment'',
      primary = \<lparr>rd_category = ''abandonment'', rd_score = 1, rd_percentage = Some 100,
                 rd_level = Some ''unknown''\<rparr>,
      secondary = None,
      scores = [(''abandonment'', 1), (''exposure'', 0), (''entrapment'', 0), (''erasure'', 0),
                (''flooded'', - 1), (''armored'', - 1), (''phantom'', - 1), (''analyzer'', - 2)],
      contributions =
        [\<lparr>ac_questionId = ''q1'', ac_questionLabel = ''q1'', ac_answerText = js_of ''option A'',
          ac_categories =
            [\<lparr>sc_category = ''flooded'', sc_value = - 1, sc_weight = None\<rparr>,
             \<lparr>sc_category = ''armored'', sc_value = - 1, sc_weight = None\<rparr>,
             \<lparr>sc_category = ''phantom'', sc_value = - 1, sc_weight = None\<rparr>,
             \<lparr>sc_category = ''analyzer'', sc_value = - 2, sc_weight = None\<rparr>,
             \<lparr>sc_category = ''abandonment'', sc_value = 1, sc_weight = None\<rparr>]\<rparr>],
      isGroundZero = False, timestamp = 0, res_metadata = Some []\<rparr>"
  by (simp add: negative_mask_result_def negative_mask_quiz_def scoring_defs example_defs
      object_defs Let_def)

text \<open>
  C3 (as amended). For a composite configuration whose result is not ground zero, the key
  is \<open><war>-<mask>\<close>, where each part is the first category, in the iteration order of its
  fixed set, whose score no other category of the set exceeds (strictly-greater comparison,
  a missing score read as 0), whenever each of the two sets has a category with a score
  above \<open>-1\<close>; this includes a set whose scores are all 0, which gives its first category.
  Only when one of the sets has no score above \<open>-1\<close> does the key fall through to the
  highest-wins key, \<open><primary>-<secondary>\<close> or the primary category alone.
\<close>

theorem composite_result_key:
  assumes "scoring_type (scoring quiz) = Composite"
    and "\<not> isGroundZero (calculateResults H quiz st now)"
  shows "((\<exists>c\<in>set warCategories. - 1 < score_or_zero (scores (calculateResults H quiz st now)) c) \<and>
          (\<exists>c\<in>set maskCategories. - 1 < score_or_zero (scores (calculateResults H quiz st now)) c) \<longrightarrow>
            (\<exists>w m. firstTop (scores (calculateResults H quiz st now)) warCategories = Some w \<and>
                   firstTop (scores (calculateResults H quiz st now)) maskCategories = Some m \<and>
                   resultKey (calculateResults H quiz st now) = w @ ''-'' @ m)) \<and>
         (\<not> ((\<exists>c\<in>set warCategories. - 1 < score_or_zero (scores (calculateResults H quiz st now)) c) \<and>
             (\<exists>c\<in>set maskCategories. - 1 < score_or_zero (scores (calculateResults H quiz st now)) c)) \<longrightarrow>
            resultKey (calculateResults H quiz st now) =
              highestWinsKey (primary (calculateResults H quiz st now))
                (secondary (calculateResults H quiz st now)))"
proof -
  let ?r = "calculateResults H quiz st now"
  let ?scs = "scores ?r"
  have key: "resultKey ?r = buildResultKey (scoring quiz) (primary ?r) (secondary ?r) ?scs"
    using assms(2) by (simp add: calculateResults_def Let_def)
  obtain w where w: "firstTop ?scs warCategories = Some w" "w \<in> set warCategories"
    using firstTop_Some [of warCategories ?scs] by (auto simp: warCategories_def)
  obtain m where m: "firstTop ?scs maskCategories = Some m" "m \<in> set maskCategories"
    using firstTop_Some [of maskCategories ?scs] by (auto simp: maskCategories_def)
  have ne: "w \<noteq> []" "m \<noteq> []"
    using w(2) m(2) by (auto simp: warCategories_def maskCategories_def)
  show ?thesis
    unfolding key buildResultKey_def getTopFromList_firstTop Let_def
    using assms(1) w(1) m(1) ne by auto
qed

theorem composite_result_key_witness:
  "scoring_type (scoring war_only_quiz) = Composite \<and>
   \<not> isGroundZero war_only_result \<and>
   (\<exists>c\<in>set warCategories. - 1 < score_or_zero (scores war_only_result) c) \<and>
   (\<exists>c\<in>set maskCategories. - 1 < score_or_zero (scores war_only_result) c) \<and>
   firstTop (scores war_only_result) warCategories = Some ''abandonment'' \<and>
   firstTop (scores war_only_result) maskCategories = Some ''flooded'' \<and>
   resultKey war_only_result = ''abandonment'' @ ''-'' @ ''flooded'' \<and>
   scoring_type (scoring negative_mask_quiz) = Composite \<and>
   \<not> isGroundZero negative_mask_result \<and>
   \<not> (\<exists>c\<in>set maskCategories. - 1 < score_or_zero (scores negative_mask_result) c) \<and>
   resultKey negative_mask_result =
     highestWinsKey (primary negative_mask_result) (secondary negative_mask_result)"
proof -
  have c1: "scoring_type (scoring war_only_quiz) = Composite"
    by (simp add: war_only_quiz_def WAR_MASK_SCORING_def)
  have g1: "\<not> isGroundZero war_only_result"
    by (simp add: war_only_eval)
  have e1: "\<exists>c\<in>set warCategories. - 1 < score_or_zero (scores war_only_result) c"
    by (simp add: war_only_eval warCategories_def score_or_zero_def)
  have e2: "\<exists>c\<in>set maskCategories. - 1 < score_or_zero (scores war_only_result) c"
    by (simp add: war_only_eval maskCategories_def score_or_zero_def)
  have f1: "firstTop (scores war_only_result) warCategories = Some ''abandonment''"
    by (simp add: war_only_eval warCategories_def score_or_zero_def firstTop_def isTop_def)
  have f2: "firstTop (scores war_only_result) maskCategories = Some ''flooded''"
    by (simp add: war_only_eval maskCategories_def score_or_zero_def firstTop_def isTop_def)
  have k1: "resultKey war_only_result = ''abandonment'' @ ''-'' @ ''flooded''"
    using composite_result_key
      [of war_only_quiz example_host "answered [(''q1'', JStr (js_of ''A''))]" 0,
       folded war_only_result_def, OF c1 g1] e1 e2 f1 f2
    by auto
  have c2: "scoring_type (scoring negative_mask_quiz) = Composite"
    by (simp add: negative_mask_quiz_def WAR_MASK_SCORING_def)
  have g2: "\<not> isGroundZero negative_mask_result"
    by (simp add: negative_mask_eval)
  have n2: "\<not> (\<exists>c\<in>set maskCategories. - 1 < score_or_zero (scores negative_mask_result) c)"
    by (simp add: negative_mask_eval maskCategories_def score_or_zero_def)
  have k2: "resultKey negative_mask_result =
     highestWinsKey (primary negative_mask_result) (secondary negative_mask_result)"
    using composite_result_key
      [of negative_mask_quiz example_host "answered [(''q1'', JStr (js_of ''A''))]" 0,
       folded negative_mask_result_def, OF c2 g2] n2
    by blast
  from c1 g1 e1 e2 f1 f2 k1 c2 g2 n2 k2 show ?thesis
    by (intro conjI)
qed

text \<open>
  The claim as stated fails when a set has no positive score but scores of 0: an answer
  tagged with a war and no mask leaves every mask at 0, the highest-wins key would be
  \<open>abandonment\<close>, and the key is \<open>abandonment-flooded\<close>.
\<close>

theorem composite_result_key_counterexample:
  "scoring_type (scoring war_only_quiz) = Composite \<and>
   \<not> isGroundZero war_only_result \<and>
   score_or_zero (scores war_only_result) ''flooded'' = 0 \<and>
   score_or_zero (scores war_only_result) ''armored'' = 0 \<and>
   score_or_zero (scores war_only_result) ''phantom'' = 0 \<and>
   score_or_zero (scores war_only_result) ''analyzer'' = 0 \<and>
   highestWinsKey (primary war_only_result) (secondary war_only_result) = ''abandonment'' \<and>
   resultKey war_only_result = ''abandonment-flooded'' \<and>
   resultKey war_only_result \<noteq>
     highestWinsKey (primary war_only_result) (secondary war_only_result)"
  by (simp add: war_only_eval score_or_zero_def highestWinsKey_def war_only_quiz_def
      WAR_MASK_SCORING_def)

subsection \<open>Ground zero\<close>

lemma foldl_max: "foldl max w ws = Max (set (w # ws))"
  for w :: rat
proof (induction ws arbitrary: w)
  case Nil
  then show ?case by simp
next
  case (Cons x xs)
  have "Max (set (max w x # xs)) = Max (set (w # x # xs))"
    by (cases "xs = []") (simp_all add: max.assoc)
  then show ?case
    using Cons.IH [of "max w x"] by simp
qed

lemma foldl_min: "foldl min w ws = Min (set (w # ws))"
  for w :: rat
proof (induction ws arbitrary: w)
  case Nil
  then show ?case by simp
next
  case (Cons x xs)
  have "Min (set (min w x # xs)) = Min (set (w # x # xs))"
    by (cases "xs = []") (simp_all add: min.assoc)
  then show ?case
    using Cons.IH [of "min w x"] by simp
qed

lemma spreadWithin_iff: "spreadWithin ws d \<longleftrightarrow> ws = [] \<or> Max (set ws) - Min (set ws) \<le> d"
  by (cases ws) (simp_all only: spreadWithin.simps foldl_max foldl_min simp_thms list.simps)

lemma checkGroundZero_qualifying:
  "groundZeroThreshold cfg = Some gz \<Longrightarrow>
   checkGroundZero cfg scs \<longleftrightarrow>
     minCategories gz \<le> rat_of_nat (length (qualifying gz scs)) \<and>
     (qualifying gz scs = [] \<or>
      Max (set (qualifying gz scs)) - Min (set (qualifying gz scs)) \<le> maxSpread gz)"
  by (simp add: checkGroundZero_def qualifying_def spreadWithin_iff Let_def not_less)

lemma all_fronts_eval:
  "scores all_fronts_result =
     [(''abandonment'', 4), (''exposure'', 3), (''entrapment'', 3), (''erasure'', 1),
      (''flooded'', 0), (''armored'', 0), (''phantom'', 0), (''analyzer'', 0)]"
  by (simp add: all_fronts_result_def all_fronts_quiz_def scoring_defs example_defs object_defs
      Let_def)

text \<open>
  C4. When a ground-zero configuration is present, the ground-zero flag of the result is
  set if and only if at least \<open>minCategories\<close> of the four war scores are at or above
  \<open>minScore\<close> and the difference between the largest and the smallest of those qualifying
  scores is at most \<open>maxSpread\<close> (nothing is required of the spread when no score
  qualifies). Whenever the flag is set the key is \<open>ground-zero\<close>; so it is for war scores
  4, 3, 3, 1 under the configuration 3, 2, 3.
\<close>

theorem ground_zero_flag:
  "(groundZeroThreshold (scoring quiz) = Some gz \<longrightarrow>
      (isGroundZero (calculateResults H quiz st now) \<longleftrightarrow>
         minCategories gz
           \<le> rat_of_nat (length (qualifying gz (scores (calculateResults H quiz st now)))) \<and>
         (qualifying gz (scores (calculateResults H quiz st now)) = [] \<or>
          Max (set (qualifying gz (scores (calculateResults H quiz st now))))
            - Min (set (qualifying gz (scores (calculateResults H quiz st now))))
            \<le> maxSpread gz))) \<and>
   (isGroundZero (calculateResults H quiz st now) \<longrightarrow>
      resultKey (calculateResults H quiz st now) = ''ground-zero'') \<and>
   (groundZeroThreshold (scoring quiz) = Some \<lparr>minCategories = 3, maxSpread = 2, minScore = 3\<rparr> \<and>
    map (score_or_zero (scores (calculateResults H quiz st now))) warCategories = [4, 3, 3, 1] \<longrightarrow>
      isGroundZero (calculateResults H quiz st now) \<and>
      resultKey (calculateResults H quiz st now) = ''ground-zero'')"
proof -
  let ?r = "calculateResults H quiz st now"
  have flag: "isGroundZero ?r = checkGroundZero (scoring quiz) (scores ?r)"
    by (simp add: calculateResults_def Let_def)
  have key: "isGroundZero ?r \<Longrightarrow> resultKey ?r = ''ground-zero''"
    by (simp add: calculateResults_def Let_def)
  have ex: "isGroundZero ?r"
    if "groundZeroThreshold (scoring quiz) = Some \<lparr>minCategories = 3, maxSpread = 2, minScore = 3\<rparr>"
      and "map (score_or_zero (scores ?r)) warCategories = [4, 3, 3, 1]"
    using that by (simp add: flag checkGroundZero_def Let_def)
  have 1: "groundZeroThreshold (scoring quiz) = Some gz \<longrightarrow>
      (isGroundZero ?r \<longleftrightarrow>
         minCategories gz \<le> rat_of_nat (length (qualifying gz (scores ?r))) \<and>
         (qualifying gz (scores ?r) = [] \<or>
          Max (set (qualifying gz (scores ?r))) - Min (set (qualifying gz (scores ?r)))
            \<le> maxSpread gz))"
  proof
    assume a: "groundZeroThreshold (scoring quiz) = Some gz"
    show "isGroundZero ?r \<longleftrightarrow>
         minCategories gz \<le> rat_of_nat (length (qualifying gz (scores ?r))) \<and>
         (qualifying gz (scores ?r) = [] \<or>
          Max (set (qualifying gz (scores ?r))) - Min (set (qualifying gz (scores ?r)))
            \<le> maxSpread gz)"
      unfolding flag by (rule checkGroundZero_qualifying [OF a])
  qed
  have 2: "isGroundZero ?r \<longrightarrow> resultKey ?r = ''ground-zero''"
    using key by blast
  have 3: "groundZeroThreshold (scoring quiz)
             = Some \<lparr>minCategories = 3, maxSpread = 2, minScore = 3\<rparr> \<and>
           map (score_or_zero (scores ?r)) warCategories = [4, 3, 3, 1] \<longrightarrow>
           isGroundZero ?r \<and> resultKey ?r = ''ground-zero''"
  proof (intro impI, elim conjE)
    assume a: "groundZeroThreshold (scoring quiz)
                 = Some \<lparr>minCategories = 3, maxSpread = 2, minScore = 3\<rparr>"
      and b: "map (score_or_zero (scores ?r)) warCategories = [4, 3, 3, 1]"
    from ex [OF a b] have "isGroundZero ?r" .
    with key show "isGroundZero ?r \<and> resultKey ?r = ''ground-zero''"
      by simp
  qed
  from 1 2 3 show ?thesis
    by (intro conjI)
qed

theorem ground_zero_flag_witness:
  "groundZeroThreshold (scoring all_fronts_quiz)
     = Some \<lparr>minCategories = 3, maxSpread = 2, minScore = 3\<rparr> \<and>
   map (score_or_zero (scores all_fronts_result)) warCategories = [4, 3, 3, 1] \<and>
   qualifying \<lparr>minCategories = 3, maxSpread = 2, minScore = 3\<rparr> (scores all_fronts_result)
     = [4, 3, 3] \<and>
   isGroundZero all_fronts_result \<and>
   resultKey all_fronts_result = ''ground-zero''"
proof -
  have c: "groundZeroThreshold (scoring all_fronts_quiz)
             = Some \<lparr>minCategories = 3, maxSpread = 2, minScore = 3\<rparr>"
    by (simp add: all_fronts_quiz_def WAR_MASK_SCORING_def)
  have s: "map (score_or_zero (scores all_fronts_result)) warCategories = [4, 3, 3, 1]"
    by (simp add: all_fronts_eval warCategories_def score_or_zero_def)
  have q: "qualifying \<lparr>minCategories = 3, maxSpread = 2, minScore = 3\<rparr> (scores all_fronts_result)
             = [4, 3, 3]"
    by (simp add: qualifying_def s)
  have "isGroundZero all_fronts_result \<and> resultKey all_fronts_result = ''ground-zero''"
    using ground_zero_flag
      [of all_fronts_quiz "\<lparr>minCategories = 3, maxSpread = 2, minScore = 3\<rparr>" example_host
          "answered [(''q1'', JStr (js_of ''A''))]" 0, folded all_fronts_result_def] c s
    by blast
  with c s q show ?thesis
    by (intro conjI) simp_all
qed

subsection \<open>The estimate of the maximal score\<close>

lemma contribTotal_append [simp]:
  "contribTotal cat (a @ b) = contribTotal cat a + contribTotal cat b"
  by (simp add: contribTotal_def)

lemma contribTotal_Nil [simp]: "contribTotal cat [] = 0"
  by (simp add: contribTotal_def)

lemma estimate_scores_fold:
  "foldl (\<lambda>m sc. if sc_category sc = cat then m + sc_value sc * weightOr1 sc else m) mx scs =
     mx + contribTotal cat scs"
  by (induction scs arbitrary: mx) (simp_all add: contribTotal_def)

lemma contribTotal_tag:
  "cat \<noteq> [] \<Longrightarrow> contribTotal cat (tagContribution tag) = (if tag = Some cat then 1 else 0)"
  by (cases tag) (auto simp: contribTotal_def tagContribution_def weightOr1_def)

lemma estimateOption_eq:
  "estimateOption cat mx opt =
     mx + contribTotal cat (explicitScores opt)
        + (if war opt = Some cat \<or> mask opt = Some cat then 1 else 0)"
  by (simp add: estimateOption_def explicitScores_def estimate_scores_fold Let_def
      split: option.splits)

lemma optionContributions_total:
  assumes "cat \<noteq> []" and "archetype opt \<noteq> Some cat"
    and "\<not> (war opt = Some cat \<and> mask opt = Some cat)"
  shows "contribTotal cat (optionContributions opt) =
     contribTotal cat (explicitScores opt)
       + (if war opt = Some cat \<or> mask opt = Some cat then 1 else 0)"
  using assms by (auto simp: optionContributions_def contribTotal_tag)

lemma estimate_options_fold:
  assumes "cat \<noteq> []"
    and "\<forall>opt\<in>set os. archetype opt \<noteq> Some cat \<and> \<not> (war opt = Some cat \<and> mask opt = Some cat)"
  shows "foldl (estimateOption cat) mx os = mx + contribTotal cat (concat (map optionContributions os))"
  using assms(2)
proof (induction os arbitrary: mx)
  case Nil
  then show ?case by simp
next
  case (Cons opt os)
  have "estimateOption cat mx opt = mx + contribTotal cat (optionContributions opt)"
    using Cons.prems assms(1) by (simp add: estimateOption_eq optionContributions_total)
  then show ?case
    using Cons by simp
qed

lemma contribTotal_none:
  "\<forall>sc\<in>set scs. sc_category sc \<noteq> cat \<Longrightarrow> contribTotal cat scs = 0"
  by (simp add: contribTotal_def filter_False)

lemma estimateQuestion_eq:
  assumes "cat \<noteq> []"
    and "\<forall>opt\<in>set (choiceOptions q).
           archetype opt \<noteq> Some cat \<and> \<not> (war opt = Some cat \<and> mask opt = Some cat)"
    and "\<forall>opt\<in>set (multiOptions q). \<forall>sc\<in>set (explicitScores opt). sc_category sc \<noteq> cat"
  shows "estimateQuestion cat mx q = mx + contribTotal cat (questionContributions q)"
proof (cases "body q")
  case (SingleChoice os)
  then show ?thesis
    using assms(2) estimate_options_fold [OF assms(1), of os mx]
    by (simp add: estimateQuestion_def questionContributions_def choiceOptions_def)
next
  case (Scenario os)
  then show ?thesis
    using assms(2) estimate_options_fold [OF assms(1), of os mx]
    by (simp add: estimateQuestion_def questionContributions_def choiceOptions_def)
next
  case (MultiChoice os a b)
  have "contribTotal cat (concat (map explicitScores os)) = 0"
    using assms(3) MultiChoice by (intro contribTotal_none) (auto simp: multiOptions_def)
  with MultiChoice show ?thesis
    by (simp add: estimateQuestion_def questionContributions_def)
qed (simp_all add: estimateQuestion_def questionContributions_def)

lemma estimate_questions_fold:
  assumes "cat \<noteq> []"
    and "\<forall>q\<in>set qs. \<forall>opt\<in>set (choiceOptions q).
           archetype opt \<noteq> Some cat \<and> \<not> (war opt = Some cat \<and> mask opt = Some cat)"
    and "\<forall>q\<in>set qs. \<forall>opt\<in>set (multiOptions q). \<forall>sc\<in>set (explicitScores opt). sc_category sc \<noteq> cat"
  shows "foldl (estimateQuestion cat) mx qs = mx + contribTotal cat (concat (map questionContributions qs))"
  using assms(2,3)
proof (induction qs arbitrary: mx)
  case Nil
  then show ?case by simp
next
  case (Cons q qs)
  have "estimateQuestion cat mx q = mx + contribTotal cat (questionContributions q)"
    using Cons.prems assms(1) by (intro estimateQuestion_eq) simp_all
  then show ?case
    using Cons by simp
qed

lemma estimateMaxScore_possible:
  assumes "cat \<noteq> []"
    and "\<forall>q\<in>set (questions quiz). \<forall>opt\<in>set (choiceOptions q).
           archetype opt \<noteq> Some cat \<and> \<not> (war opt = Some cat \<and> mask opt = Some cat)"
    and "\<forall>q\<in>set (questions quiz). \<forall>opt\<in>set (multiOptions q).
           \<forall>sc\<in>set (explicitScores opt). sc_category sc \<noteq> cat"
  shows "estimateMaxScore quiz cat =
     (if possibleTotal quiz cat = 0 then 10 else possibleTotal quiz cat)"
  using estimate_questions_fold [OF assms, of 0]
  by (simp add: estimateMaxScore_def possibleTotal_def possibleContributions_def Let_def)

lemma tag_in_optionContributions:
  "cat \<noteq> [] \<Longrightarrow> war opt = Some cat \<or> mask opt = Some cat \<or> archetype opt = Some cat \<Longrightarrow>
   \<exists>sc\<in>set (optionContributions opt). sc_category sc = cat"
  by (auto simp: optionContributions_def tagContribution_def)

lemma in_possible:
  "q \<in> set (questions quiz) \<Longrightarrow> sc \<in> set (questionContributions q) \<Longrightarrow>
   sc \<in> set (possibleContributions quiz)"
  by (auto simp: possibleContributions_def)

lemma choice_in_question:
  "opt \<in> set (choiceOptions q) \<Longrightarrow> sc \<in> set (optionContributions opt) \<Longrightarrow>
   sc \<in> set (questionContributions q)"
  by (cases "body q") (auto simp: questionContributions_def choiceOptions_def)

lemma multi_in_question:
  "opt \<in> set (multiOptions q) \<Longrightarrow> sc \<in> set (explicitScores opt) \<Longrightarrow>
   sc \<in> set (questionContributions q)"
  by (cases "body q") (auto simp: questionContributions_def multiOptions_def)

lemma no_contribution_restrictions:
  assumes "cat \<noteq> []" and "\<forall>sc\<in>set (possibleContributions quiz). sc_category sc \<noteq> cat"
  shows "\<forall>q\<in>set (questions quiz). \<forall>opt\<in>set (choiceOptions q).
           archetype opt \<noteq> Some cat \<and> \<not> (war opt = Some cat \<and> mask opt = Some cat)"
    and "\<forall>q\<in>set (questions quiz). \<forall>opt\<in>set (multiOptions q).
           \<forall>sc\<in>set (explicitScores opt). sc_category sc \<noteq> cat"
proof -
  show "\<forall>q\<in>set (questions quiz). \<forall>opt\<in>set (choiceOptions q).
           archetype opt \<noteq> Some cat \<and> \<not> (war opt = Some cat \<and> mask opt = Some cat)"
  proof (intro ballI)
    fix q opt assume q: "q \<in> set (questions quiz)" and o: "opt \<in> set (choiceOptions q)"
    have "\<forall>sc\<in>set (optionContributions opt). sc_category sc \<noteq> cat"
      using assms(2) in_possible [OF q] choice_in_question [OF o] by blast
    then show "archetype opt \<noteq> Some cat \<and> \<not> (war opt = Some cat \<and> mask opt = Some cat)"
      using tag_in_optionContributions [OF assms(1), of opt] by blast
  qed
  show "\<forall>q\<in>set (questions quiz). \<forall>opt\<in>set (multiOptions q).
           \<forall>sc\<in>set (explicitScores opt). sc_category sc \<noteq> cat"
    using assms(2) in_possible multi_in_question by blast
qed

text \<open>
  C5 (as amended). Take a category that has no configured \<open>maxScore\<close> and whose name is not
  empty. If no option of a single-choice or scenario question names it as archetype or as
  both war and mask, and no option of a multi-choice question scores toward it, then the
  maximal score used for its percentage is the sum of every contribution that any option
  of any question could produce toward it when that sum is not 0, and 10 when it is 0. In
  particular it is 10 when no option of the quiz scores toward the category at all.
\<close>

theorem maxScore_estimate:
  assumes "\<forall>c. findCategory (scoring quiz) cat = Some c \<longrightarrow> maxScore c = None"
    and "cat \<noteq> []"
  shows "((\<forall>q\<in>set (questions quiz). \<forall>opt\<in>set (choiceOptions q).
             archetype opt \<noteq> Some cat \<and> \<not> (war opt = Some cat \<and> mask opt = Some cat)) \<and>
          (\<forall>q\<in>set (questions quiz). \<forall>opt\<in>set (multiOptions q).
             \<forall>sc\<in>set (explicitScores opt). sc_category sc \<noteq> cat) \<longrightarrow>
            maxScoreFor quiz cat =
              (if possibleTotal quiz cat = 0 then 10 else possibleTotal quiz cat)) \<and>
         ((\<forall>sc\<in>set (possibleContributions quiz). sc_category sc \<noteq> cat) \<longrightarrow>
            maxScoreFor quiz cat = 10)"
proof -
  have m: "maxScoreFor quiz cat = estimateMaxScore quiz cat"
    using assms(1) by (auto simp: maxScoreFor_def split: option.splits)
  have 1: "maxScoreFor quiz cat =
              (if possibleTotal quiz cat = 0 then 10 else possibleTotal quiz cat)"
    if "\<forall>q\<in>set (questions quiz). \<forall>opt\<in>set (choiceOptions q).
             archetype opt \<noteq> Some cat \<and> \<not> (war opt = Some cat \<and> mask opt = Some cat)"
      and "\<forall>q\<in>set (questions quiz). \<forall>opt\<in>set (multiOptions q).
             \<forall>sc\<in>set (explicitScores opt). sc_category sc \<noteq> cat"
    unfolding m using assms(2) that by (rule estimateMaxScore_possible)
  have 2: "maxScoreFor quiz cat = 10"
    if n: "\<forall>sc\<in>set (possibleContributions quiz). sc_category sc \<noteq> cat"
  proof -
    have "possibleTotal quiz cat = 0"
      unfolding possibleTotal_def using n by (rule contribTotal_none)
    then show ?thesis
      using 1 [OF no_contribution_restrictions [OF assms(2) n]] by simp
  qed
  show ?thesis
    using 1 2 by (intro conjI impI) simp_all
qed

theorem maxScore_estimate_witness:
  "map_option maxScore (findCategory (scoring single_quiz) ''fixer'') = Some None \<and>
   ''fixer'' \<noteq> [] \<and>
   list_all (\<lambda>q. list_all (\<lambda>opt. archetype opt \<noteq> Some ''fixer'' \<and>
                                \<not> (war opt = Some ''fixer'' \<and> mask opt = Some ''fixer''))
                      (choiceOptions q)) (questions single_quiz) \<and>
   list_all (\<lambda>q. list_all (\<lambda>opt. list_all (\<lambda>sc. sc_category sc \<noteq> ''fixer'')
                                        (explicitScores opt))
                      (multiOptions q)) (questions single_quiz) \<and>
   possibleTotal single_quiz ''fixer'' = 7 \<and>
   maxScoreFor single_quiz ''fixer'' = 7 \<and>
   map_option maxScore (findCategory (scoring single_quiz) ''vanisher'') = Some None \<and>
   list_all (\<lambda>sc. sc_category sc \<noteq> ''vanisher'') (possibleContributions single_quiz) \<and>
   maxScoreFor single_quiz ''vanisher'' = 10"
proof -
  note defs = single_quiz_def choice_question_def plain_option_def choiceOptions_def
    multiOptions_def explicitScores_def ARCHETYPE_SCORING_def findCategory_def
    plainCategory_def possibleContributions_def questionContributions_def
    optionContributions_def tagContribution_def
  have a: "\<forall>c. findCategory (scoring single_quiz) ''fixer'' = Some c \<longrightarrow> maxScore c = None"
    by (simp add: defs)
  have b: "\<forall>q\<in>set (questions single_quiz). \<forall>opt\<in>set (choiceOptions q).
      archetype opt \<noteq> Some ''fixer'' \<and> \<not> (war opt = Some ''fixer'' \<and> mask opt = Some ''fixer'')"
    by (simp add: defs)
  have c: "\<forall>q\<in>set (questions single_quiz). \<forall>opt\<in>set (multiOptions q).
      \<forall>sc\<in>set (explicitScores opt). sc_category sc \<noteq> ''fixer''"
    by (simp add: defs)
  have p: "possibleTotal single_quiz ''fixer'' = 7"
    by (simp add: possibleTotal_def contribTotal_def weightOr1_def defs)
  have m: "maxScoreFor single_quiz ''fixer'' = 7"
    using maxScore_estimate [OF a] b c p by simp
  have a': "\<forall>c. findCategory (scoring single_quiz) ''vanisher'' = Some c \<longrightarrow> maxScore c = None"
    by (simp add: defs)
  have n: "\<forall>sc\<in>set (possibleContributions single_quiz). sc_category sc \<noteq> ''vanisher''"
    by (simp add: defs)
  have m': "maxScoreFor single_quiz ''vanisher'' = 10"
    using maxScore_estimate [OF a'] n by simp
  have h: "map_option maxScore (findCategory (scoring single_quiz) ''fixer'') = Some None"
    "map_option maxScore (findCategory (scoring single_quiz) ''vanisher'') = Some None"
    by (simp_all add: defs)
  from h b c p m n m' show ?thesis
    by (simp add: list_all_iff)
qed

text \<open>
  The claim as stated fails on a multi-choice question: its option scores 2 toward
  \<open>fixer\<close>, which has no configured \<open>maxScore\<close>, and the maximal score used is 10, so that
  selecting the option gives a percentage of 20.
\<close>

theorem maxScore_estimate_counterexample:
  "map_option maxScore (findCategory (scoring multi_quiz) ''fixer'') = Some None \<and>
   possibleTotal multi_quiz ''fixer'' = 2 \<and>
   maxScoreFor multi_quiz ''fixer'' = 10 \<and>
   maxScoreFor multi_quiz ''fixer'' \<noteq> possibleTotal multi_quiz ''fixer'' \<and>
   primary multi_result =
     \<lparr>rd_category = ''fixer'', rd_score = 2, rd_percentage = Some 20,
      rd_level = Some ''unknown''\<rparr>"
  by (simp add: multi_result_def multi_quiz_def possibleTotal_def possibleContributions_def
      questionContributions_def contribTotal_def scoring_defs example_defs object_defs Let_def)

section \<open>Properties of the engine\<close>

lemma validateTextInput_throws:
  "(\<exists>err. validateTextInput H i mn mx pat v = Inl err) \<longleftrightarrow>
     (\<exists>p. pat = Some p \<and> p \<noteq> [] \<and> regExp H p = None)"
  by (cases pat) (auto simp: validateTextInput_def Let_def split: option.splits)

lemma typeSpecific_throws:
  "(\<exists>err. typeSpecific H i b v = Inl err) \<longleftrightarrow>
     (\<exists>mn mx p. b = TextInput mn mx (Some p) \<and> p \<noteq> [] \<and> regExp H p = None)"
  by (cases b) (simp_all add: validateTextInput_throws)

lemma validateAnswer_throws:
  "(\<exists>err. validateAnswer H q v = Inl err) \<longleftrightarrow>
     \<not> isEmpty v \<and>
     (\<exists>mn mx p. body q = TextInput mn mx (Some p) \<and> p \<noteq> [] \<and> regExp H p = None)"
proof (cases "isEmpty v")
  case True
  then show ?thesis by (simp add: validateAnswer_def)
next
  case False
  have "(\<exists>err. validateAnswer H q v = Inl err) \<longleftrightarrow>
        (\<exists>err. typeSpecific H (qid q) (body q) v = Inl err)"
    using False by (simp add: validateAnswer_def split: sum.splits)
  then show ?thesis
    using False by (simp only: typeSpecific_throws simp_thms)
qed

lemma submitAnswer_throws:
  assumes "getCurrentQuestion e = Some question"
  shows "(\<exists>err. fst (submitAnswer H e v now) = Inl err) \<longleftrightarrow>
         (\<exists>err. validateAnswer H question v = Inl err)"
  using assms by (auto simp: submitAnswer_def Let_def split: sum.splits)

text \<open>
  C6 (as amended). Let the engine have a current question. When validation returns an
  invalid result for the submitted value, \<open>submitAnswer\<close> returns that result, with its
  errors, and the engine is the one before the call: no answer is stored, and the cursor,
  the metadata, the timestamps, the storage, the delivered events and the timers are
  untouched. \<open>submitAnswer\<close> throws exactly when the value is not empty and the current
  question is a text input whose \<open>validationPattern\<close> is not empty and is rejected by
  \<open>new RegExp\<close>, whether or not the value also fails a length check; what it throws is
  that \<open>SyntaxError\<close>, and the engine is unchanged then as well.
\<close>

theorem submitAnswer_not_valid:
  assumes "getCurrentQuestion e = Some question"
  shows "(validateAnswer H question v = Inr validation \<and> \<not> isValid validation \<longrightarrow>
            submitAnswer H e v now = (Inr validation, e)) \<and>
         ((\<exists>err. fst (submitAnswer H e v now) = Inl err) \<longleftrightarrow>
            \<not> isEmpty v \<and>
            (\<exists>mn mx p. body question = TextInput mn mx (Some p) \<and> p \<noteq> [] \<and>
                        regExp H p = None)) \<and>
         ((\<exists>err. fst (submitAnswer H e v now) = Inl err) \<longrightarrow>
            submitAnswer H e v now = (Inl SyntaxError, e))"
proof -
  have 1: "validateAnswer H question v = Inr validation \<and> \<not> isValid validation \<longrightarrow>
            submitAnswer H e v now = (Inr validation, e)"
    using assms by (simp add: submitAnswer_def)
  have 2: "(\<exists>err. fst (submitAnswer H e v now) = Inl err) \<longleftrightarrow>
            \<not> isEmpty v \<and>
            (\<exists>mn mx p. body question = TextInput mn mx (Some p) \<and> p \<noteq> [] \<and>
                        regExp H p = None)"
    by (simp only: submitAnswer_throws [OF assms] validateAnswer_throws)
  have 3: "(\<exists>err. fst (submitAnswer H e v now) = Inl err) \<longrightarrow>
            submitAnswer H e v now = (Inl SyntaxError, e)"
  proof
    assume "\<exists>err. fst (submitAnswer H e v now) = Inl err"
    then obtain err where "validateAnswer H question v = Inl err"
      using submitAnswer_throws [OF assms] by blast
    moreover have "err = SyntaxError" by (cases err) simp
    ultimately show "submitAnswer H e v now = (Inl SyntaxError, e)"
      using assms by (simp add: submitAnswer_def)
  qed
  from 1 2 3 show ?thesis
    by (intro conjI)
qed

text \<open>
  The witness submits a blank string, which validation returns as invalid, and the string
  \<open>a\<close>, on which the malformed pattern of the question makes validation throw.
\<close>

theorem submitAnswer_not_valid_witness:
  "getCurrentQuestion example_engine = Some text_question \<and>
   validateAnswer example_host text_question (JStr [0x20]) =
     Inr \<lparr>isValid = False,
          errors = [\<lparr>ve_questionId = ''name'',
                     ve_message = ''This question requires an answer'',
                     ve_code = Required\<rparr>]\<rparr> \<and>
   submitAnswer example_host example_engine (JStr [0x20]) 5 =
     (Inr \<lparr>isValid = False,
           errors = [\<lparr>ve_questionId = ''name'',
                      ve_message = ''This question requires an answer'',
                      ve_code = Required\<rparr>]\<rparr>, example_engine) \<and>
   \<not> isEmpty (JStr (js_of ''a'')) \<and>
   body text_question = TextInput (Some 2) None (Some ''['') \<and>
   regExp example_host ''['' = None \<and>
   submitAnswer example_host example_engine (JStr (js_of ''a'')) 5 =
     (Inl SyntaxError, example_engine)"
proof -
  have c: "getCurrentQuestion example_engine = Some text_question"
    by (simp add: getCurrentQuestion_def getQuestion_def example_engine_def empty_state_def)
  have v: "validateAnswer example_host text_question (JStr [0x20]) =
     Inr \<lparr>isValid = False,
          errors = [\<lparr>ve_questionId = ''name'',
                     ve_message = ''This question requires an answer'',
                     ve_code = Required\<rparr>]\<rparr>"
    by (simp add: validateAnswer_def text_question_def trim_def is_ws_def)
  have n: "\<not> isEmpty (JStr (js_of ''a''))"
    by (simp add: js_of_def trim_def is_ws_def)
  have b: "body text_question = TextInput (Some 2) None (Some ''['')"
    by (simp add: text_question_def)
  have r: "regExp example_host ''['' = None"
    by (simp add: example_host_def)
  note t = submitAnswer_not_valid [OF c, of example_host]
  have 1: "submitAnswer example_host example_engine (JStr [0x20]) 5 =
     (Inr \<lparr>isValid = False,
           errors = [\<lparr>ve_questionId = ''name'',
                      ve_message = ''This question requires an answer'',
                      ve_code = Required\<rparr>]\<rparr>, example_engine)"
    using t [of "JStr [0x20]" _ 5] v by simp
  have "\<exists>err. fst (submitAnswer example_host example_engine (JStr (js_of ''a'')) 5) = Inl err"
    using t [of "JStr (js_of ''a'')" _ 5] n b r by blast
  then have 2: "submitAnswer example_host example_engine (JStr (js_of ''a'')) 5 =
     (Inl SyntaxError, example_engine)"
    using t [of "JStr (js_of ''a'')" _ 5] by blast
  from c v 1 n b r 2 show ?thesis
    by (intro conjI)
qed

text \<open>
  The claim as stated fails: on a text input with the minimal length 2 and the malformed
  pattern \<open>[\<close>, the value \<open>a\<close> is too short, and \<open>submitAnswer\<close> throws instead of returning
  the error.
\<close>

theorem submitAnswer_not_valid_counterexample:
  "getCurrentQuestion example_engine = Some text_question \<and>
   body text_question = TextInput (Some 2) None (Some ''['') \<and>
   rat_of_nat (length (js_of ''a'')) < 2 \<and>
   fst (submitAnswer example_host example_engine (JStr (js_of ''a'')) 5) = Inl SyntaxError"
  by (simp add: submitAnswer_def getCurrentQuestion_def getQuestion_def example_engine_def
      empty_state_def validateAnswer_def validateTextInput_def text_question_def
      example_host_def js_of_def trim_def is_ws_def Let_def)

lemma scanForward_none:
  assumes "\<forall>i. k \<le> i \<and> i < length (questions (eng_quiz e)) \<longrightarrow>
             (case getQuestion e i of None \<Rightarrow> True | Some q \<Rightarrow> \<not> isVisible H (eng_state e) q)"
  shows "length (questions (eng_quiz e)) \<le> scanForward H e k"
  using assms
proof (induction H e k rule: scanForward.induct)
  case (1 H e nextIndex)
  show ?case
  proof (cases "nextIndex < length (questions (eng_quiz e))")
    case True
    have later: "\<forall>i. nextIndex + 1 \<le> i \<and> i < length (questions (eng_quiz e)) \<longrightarrow>
             (case getQuestion e i of None \<Rightarrow> True | Some q \<Rightarrow> \<not> isVisible H (eng_state e) q)"
      using "1.prems" by simp
    have here: "case getQuestion e nextIndex of None \<Rightarrow> True
                | Some q \<Rightarrow> \<not> isVisible H (eng_state e) q"
      using "1.prems" True by simp
    show ?thesis
    proof (cases "getQuestion e nextIndex")
      case None
      then show ?thesis
        using True "1.IH"(1) [OF True None later] by (subst scanForward.simps) simp
    next
      case (Some q)
      then have "\<not> isVisible H (eng_state e) q" using here by simp
      then show ?thesis
        using True Some "1.IH"(2) [OF True Some _ later] by (subst scanForward.simps) simp
    qed
  next
    case False
    then show ?thesis by (subst scanForward.simps) simp
  qed
qed

text \<open>
  C9. When no position after the cursor, up to the end of the question list, holds a visible
  question, \<open>next\<close> returns \<open>false\<close> and leaves the engine, and so the cursor, unchanged; a
  repeated call therefore returns \<open>false\<close> again on the same engine.
\<close>

theorem next_at_end:
  assumes "\<forall>i. currentQuestionIndex (eng_state e) < i \<and> i < length (questions (eng_quiz e)) \<longrightarrow>
             (case getQuestion e i of None \<Rightarrow> True | Some q \<Rightarrow> \<not> isVisible H (eng_state e) q)"
  shows "engine_next H e now = (False, e) \<and>
         engine_next H (snd (engine_next H e now)) now' = (False, e)"
proof -
  have "length (questions (eng_quiz e)) \<le> scanForward H e (currentQuestionIndex (eng_state e) + 1)"
    using assms by (intro scanForward_none) simp
  then have "engine_next H e t = (False, e)" for t
    by (simp add: engine_next_def Let_def split: option.splits)
  then show ?thesis by simp
qed

theorem next_at_end_witness:
  "fst (engine_next example_host example_engine 5) = False \<and>
   currentQuestionIndex (eng_state (snd (engine_next example_host example_engine 5))) =
     currentQuestionIndex (eng_state example_engine) \<and>
   engine_next example_host example_engine 5 = (False, example_engine) \<and>
   engine_next example_host (snd (engine_next example_host example_engine 5)) 6 =
     (False, example_engine)"
proof -
  have h: "\<not> isVisible example_host empty_state gated_question"
    "\<not> isVisible example_host empty_state (gated_question\<lparr>qid := ''q3''\<rparr>)"
    by (simp_all add: isVisible_def gated_question_def q1_is_yes_def evaluateConditions_def
        answerValue_def empty_state_def)
  have a: "\<forall>i. currentQuestionIndex (eng_state example_engine) < i \<and>
                i < length (questions (eng_quiz example_engine)) \<longrightarrow>
             (case getQuestion example_engine i of None \<Rightarrow> True
              | Some q \<Rightarrow> \<not> isVisible example_host (eng_state example_engine) q)"
  proof (intro allI impI)
    fix i
    assume "currentQuestionIndex (eng_state example_engine) < i \<and>
            i < length (questions (eng_quiz example_engine))"
    then have "i = 1 \<or> i = 2"
      by (auto simp: example_engine_def empty_state_def)
    then show "case getQuestion example_engine i of None \<Rightarrow> True
              | Some q \<Rightarrow> \<not> isVisible example_host (eng_state example_engine) q"
      using h by (auto simp: getQuestion_def example_engine_def)
  qed
  note t = next_at_end [OF a, of 5 6]
  have 1: "engine_next example_host example_engine 5 = (False, example_engine)"
    using t by (rule conjunct1)
  have 2: "engine_next example_host (snd (engine_next example_host example_engine 5)) 6 =
     (False, example_engine)"
    using t by (rule conjunct2)
  from 1 2 show ?thesis
    by simp
qed

end
